theory Spec2Isabelle
  imports Complex_Main "HOL-Library.Word" "HOL-Library.Sublist"
begin

unbundle bit_operations_syntax

section \<open>Values shared by the services\<close>

text \<open>
  A JavaScript number that may be \<^verbatim>\<open>NaN\<close>. Finite doubles are read as the reals they
  denote: the code compares them and subtracts two of them to get the sign of the
  difference. Infinite values are not modelled.
\<close>

datatype jsnum = NaN | Num real

text \<open>
  \<^verbatim>\<open>interface Municipality { city: string; state?: string; postal_code: string; distance?: number }\<close>
  of \<^verbatim>\<open>GeolocationService.ts\<close>. An optional field that is \<^verbatim>\<open>undefined\<close> is \<open>None\<close>;
  \<^verbatim>\<open>postal_code\<close> is copied from the untyped API item and so may be \<^verbatim>\<open>undefined\<close> too.
\<close>

record Municipality =
  city :: string
  state :: "string option"
  postal_code :: "string option"
  distance :: "jsnum option"

section \<open>JavaScript strings and numbers\<close>

text \<open>
  Strings are lists of 8-bit characters, so the model covers strings whose UTF-16 code
  units are below 256; \<^verbatim>\<open>charCodeAt\<close> is \<open>of_char\<close>.
  \<^verbatim>\<open>String.prototype.trim\<close> and the class \<^verbatim>\<open>\s\<close> of a regular expression remove the
  same characters: tab, line feed, vertical tab, form feed, carriage return, space and
  the no-break space.
\<close>

definition isWhiteSpace :: "char \<Rightarrow> bool" where
  "isWhiteSpace c = (of_char c \<in> {9, 10, 11, 12, 13, 32, 160 :: nat})"

definition trim :: "string \<Rightarrow> string" where
  "trim s = rev (dropWhile isWhiteSpace (rev (dropWhile isWhiteSpace s)))"

text \<open>\<^verbatim>\<open>s.startsWith(p)\<close>\<close>

definition startsWith :: "string \<Rightarrow> string \<Rightarrow> bool" where
  "startsWith s p = (take (length p) s = p)"

text \<open>\<^verbatim>\<open>s.split(c)\<close> for a one-character separator: the empty string gives one empty piece.\<close>

fun split :: "char \<Rightarrow> string \<Rightarrow> string list" where
  "split c [] = [[]]"
| "split c (x # xs) =
     (if x = c then [] # split c xs
      else (case split c xs of [] \<Rightarrow> [[x]] | piece # pieces \<Rightarrow> (x # piece) # pieces))"

text \<open>\<^verbatim>\<open>Array.prototype.join\<close> on an array of strings.\<close>

fun join :: "string \<Rightarrow> string list \<Rightarrow> string" where
  "join sep [] = []"
| "join sep [x] = x"
| "join sep (x # y # ys) = x @ sep @ join sep (y # ys)"

text \<open>
  \<^verbatim>\<open>Number.prototype.toString(radix)\<close> on an integer: digits \<^verbatim>\<open>0-9a-z\<close>, most
  significant first, with a leading minus sign for a negative number.
\<close>

definition digitChar :: "nat \<Rightarrow> char" where
  "digitChar d = ''0123456789abcdefghijklmnopqrstuvwxyz'' ! d"

function toDigits :: "nat \<Rightarrow> nat \<Rightarrow> string" where
  "toDigits radix n =
     (if radix < 2 \<or> n < radix then [digitChar n]
      else toDigits radix (n div radix) @ [digitChar (n mod radix)])"
  by pat_completeness auto
termination
  by (relation "measure (\<lambda>(radix, n). n)") auto

declare toDigits.simps [simp del]

definition toStringRadix :: "nat \<Rightarrow> int \<Rightarrow> string" where
  "toStringRadix radix i =
     (if i < 0 then CHR ''-'' # toDigits radix (nat (- i)) else toDigits radix (nat i))"

section \<open>ipService: the client-side ban\<close>

subsection \<open>The browser\<close>

text \<open>
  The three local stores of the page. \<^verbatim>\<open>localStorage\<close> and \<^verbatim>\<open>sessionStorage\<close> map keys
  to strings (\<^verbatim>\<open>getItem\<close> gives \<^verbatim>\<open>null\<close>, here \<open>None\<close>, for a missing key). The cookie
  store is the list of name/value pairs visible to the page. \<open>requests\<close> logs, oldest
  first, the network requests the page has issued.
\<close>

datatype request =
    GET_check_device string
  | GET_check_ip_status
  | GET_admin_check_ip_banned
  | POST_admin_register_device string
  | POST_admin_report_desktop_access string

record browser =
  localStorage :: "string \<rightharpoonup> string"
  sessionStorage :: "string \<rightharpoonup> string"
  cookieJar :: "(string \<times> string) list"
  requests :: "request list"

text \<open>
  The getter of \<^verbatim>\<open>document.cookie\<close> lists the cookies as \<^verbatim>\<open>name=value\<close> separated by
  \<^verbatim>\<open>"; "\<close>; a cookie without a name is listed by its value alone.
\<close>

definition cookieText :: "string \<times> string \<Rightarrow> string" where
  "cookieText c = (if fst c = [] then snd c else fst c @ ''='' @ snd c)"

definition document_cookie :: "browser \<Rightarrow> string" where
  "document_cookie b = join ''; '' (map cookieText (cookieJar b))"

text \<open>
  The setter of \<^verbatim>\<open>document.cookie\<close> reads the text before the first semicolon as
  \<^verbatim>\<open>name=value\<close> (split at the first equals sign, both parts trimmed) and stores the
  pair, replacing the value of a cookie of that name. The attributes after the semicolon
  are not modelled: the only text the service assigns has \<^verbatim>\<open>path=/\<close> and an expiry date
  in the year 9999.
\<close>

definition cookiePair :: "string \<Rightarrow> string \<times> string" where
  "cookiePair text =
     (let nv = takeWhile (\<lambda>c. c \<noteq> CHR '';'') text in
      if CHR ''='' \<in> set nv
      then (trim (takeWhile (\<lambda>c. c \<noteq> CHR ''='') nv),
            trim (drop 1 (dropWhile (\<lambda>c. c \<noteq> CHR ''='') nv)))
      else ([], trim nv))"

fun storeCookie :: "string \<times> string \<Rightarrow> (string \<times> string) list \<Rightarrow> (string \<times> string) list" where
  "storeCookie c [] = [c]"
| "storeCookie c (d # jar) = (if fst d = fst c then c # jar else d # storeCookie c jar)"

definition document_cookie_set :: "string \<Rightarrow> browser \<Rightarrow> browser" where
  "document_cookie_set text b = b\<lparr>cookieJar := storeCookie (cookiePair text) (cookieJar b)\<rparr>"

definition localStorage_setItem :: "string \<Rightarrow> string \<Rightarrow> browser \<Rightarrow> browser" where
  "localStorage_setItem k v b = b\<lparr>localStorage := (localStorage b)(k \<mapsto> v)\<rparr>"

definition sessionStorage_setItem :: "string \<Rightarrow> string \<Rightarrow> browser \<Rightarrow> browser" where
  "sessionStorage_setItem k v b = b\<lparr>sessionStorage := (sessionStorage b)(k \<mapsto> v)\<rparr>"

subsection \<open>Constants and the local ban\<close>

definition BANNED_KEY :: string where
  "BANNED_KEY = ''sp_access_blocked''"

definition BANNED_DEVICE_KEY :: string where
  "BANNED_DEVICE_KEY = ''sp_device_id''"

text \<open>
  \<^verbatim>\<open>markLocalBan(): localStorage.setItem(BANNED_KEY, 'true');
  sessionStorage.setItem(BANNED_KEY, 'true');
  document.cookie = `${BANNED_KEY}=true; expires=Fri, 31 Dec 9999 23:59:59 GMT; path=/`;\<close>
\<close>

definition markLocalBan :: "browser \<Rightarrow> browser" where
  "markLocalBan b =
     document_cookie_set (BANNED_KEY @ ''=true; expires=Fri, 31 Dec 9999 23:59:59 GMT; path=/'')
       (sessionStorage_setItem BANNED_KEY ''true''
         (localStorage_setItem BANNED_KEY ''true'' b))"

text \<open>
  \<^verbatim>\<open>isLocallyBanned(): if (localStorage.getItem(BANNED_KEY) === 'true') return true;
  if (sessionStorage.getItem(BANNED_KEY) === 'true') return true;
  return document.cookie.split(';').some(cookie =>
    cookie.trim().startsWith(`${BANNED_KEY}=true`));\<close>
\<close>

definition isLocallyBanned :: "browser \<Rightarrow> bool" where
  "isLocallyBanned b =
     (if localStorage b BANNED_KEY = Some ''true'' then True
      else if sessionStorage b BANNED_KEY = Some ''true'' then True
      else list_ex (\<lambda>cookie. startsWith (trim cookie) (BANNED_KEY @ ''=true''))
             (split CHR '';'' (document_cookie b)))"

text \<open>
  A cookie as the setter stores it, with or without a name: neither the name nor the
  value has a semicolon, the name has no equals sign, and neither starts with white
  space.
\<close>

definition validCookie :: "string \<times> string \<Rightarrow> bool" where
  "validCookie c =
     (CHR '';'' \<notin> set (fst c) \<and> CHR '';'' \<notin> set (snd c) \<and> CHR ''='' \<notin> set (fst c)
      \<and> (fst c = [] \<or> \<not> isWhiteSpace (hd (fst c)))
      \<and> (snd c = [] \<or> \<not> isWhiteSpace (hd (snd c))))"

text \<open>
  The two kinds of cookie that the cookie check of \<^verbatim>\<open>isLocallyBanned\<close> finds: a cookie
  named \<^verbatim>\<open>sp_access_blocked\<close> whose value starts with \<^verbatim>\<open>true\<close>, and a cookie without a
  name whose value starts with \<^verbatim>\<open>sp_access_blocked=true\<close>.
\<close>

definition banCookie :: "string \<times> string \<Rightarrow> bool" where
  "banCookie c =
     (if fst c = [] then startsWith (snd c) (BANNED_KEY @ ''=true'')
      else fst c = BANNED_KEY \<and> startsWith (snd c) ''true'')"

text \<open>Browser states used in the examples below.\<close>

definition example_browser :: browser where
  "example_browser =
     \<lparr>localStorage = Map.empty, sessionStorage = Map.empty,
      cookieJar = [(''lang'', ''pt''), (''sp_access_blocked'', ''true'')], requests = []\<rparr>"

definition example_browser_true1 :: browser where
  "example_browser_true1 =
     \<lparr>localStorage = Map.empty, sessionStorage = Map.empty,
      cookieJar = [(''sp_access_blocked'', ''true1'')], requests = []\<rparr>"

definition example_browser_nameless :: browser where
  "example_browser_nameless =
     document_cookie_set ''=sp_access_blocked=true''
       \<lparr>localStorage = Map.empty, sessionStorage = Map.empty,
        cookieJar = [(''lang'', ''pt'')], requests = []\<rparr>"

subsection \<open>The device identifier\<close>

text \<open>
  The attributes \<^verbatim>\<open>generateDeviceId\<close> reads from \<^verbatim>\<open>navigator\<close>, \<^verbatim>\<open>screen\<close> and the
  time zone. \<^verbatim>\<open>hardwareConcurrency\<close> is \<open>None\<close> where the browser does not define it.
\<close>

record device =
  userAgent :: string
  language :: string
  timezoneOffset :: int
  colorDepth :: int
  width :: int
  height :: int
  hardwareConcurrency :: "nat option"

text \<open>
  \<^verbatim>\<open>const components = [navigator.userAgent, navigator.language,
    new Date().getTimezoneOffset(), screen.colorDepth, screen.width + 'x' + screen.height,
    navigator.hardwareConcurrency || ''];  const str = components.join('|||');\<close>
  \<^verbatim>\<open>join\<close> writes each number in decimal; \<^verbatim>\<open>|| ''\<close> replaces an undefined or zero
  \<^verbatim>\<open>hardwareConcurrency\<close> by the empty string.
\<close>

definition components :: "device \<Rightarrow> string list" where
  "components d =
     [userAgent d, language d, toStringRadix 10 (timezoneOffset d),
      toStringRadix 10 (colorDepth d),
      toStringRadix 10 (width d) @ ''x'' @ toStringRadix 10 (height d),
      (case hardwareConcurrency d of
         None \<Rightarrow> [] | Some n \<Rightarrow> if n = 0 then [] else toStringRadix 10 (int n))]"

text \<open>
  \<^verbatim>\<open>for (let i = 0; i < str.length; i++) {
    hash = ((hash << 5) - hash) + str.charCodeAt(i);  hash |= 0; }\<close>
  \<^verbatim>\<open>hash |= 0\<close> keeps the low 32 bits, read as a signed integer: the loop is arithmetic
  on 32-bit words.
\<close>

fun hashLoop :: "32 word \<Rightarrow> string \<Rightarrow> 32 word" where
  "hashLoop hash [] = hash"
| "hashLoop hash (c # str) = hashLoop ((push_bit 5 hash - hash) + of_nat (of_char c)) str"

text \<open>
  \<^verbatim>\<open>return 'dev_' + Math.abs(hash).toString(16) + '_' + Date.now().toString(36);\<close>
  The second argument is the value of \<^verbatim>\<open>Date.now()\<close> at the call.
\<close>

definition generateDeviceId :: "device \<Rightarrow> int \<Rightarrow> string" where
  "generateDeviceId d now =
     ''dev_'' @ toStringRadix 16 \<bar>sint (hashLoop 0 (join ''|||'' (components d)))\<bar>
     @ ''_'' @ toStringRadix 36 now"

text \<open>A device used in the examples below: a phone with a 360 by 640 screen.\<close>

definition example_device :: device where
  "example_device =
     \<lparr>userAgent = ''M'', language = ''pt'', timezoneOffset = 180, colorDepth = 24,
      width = 360, height = 640, hardwareConcurrency = Some 8\<rparr>"

subsection \<open>Programs that may throw\<close>

text \<open>
  An asynchronous function of the service is a function from the browser state to a
  result, which is a value or a thrown exception, and the state reached.
\<close>

datatype exn = NetworkError | HttpError | SyntaxError | TypeError | SecurityError

type_synonym 'a prog = "browser \<Rightarrow> (exn + 'a) \<times> browser"

definition ret :: "'a \<Rightarrow> 'a prog" where
  "ret x = (\<lambda>b. (Inr x, b))"

definition throw :: "exn \<Rightarrow> 'a prog" where
  "throw e = (\<lambda>b. (Inl e, b))"

definition bind :: "'a prog \<Rightarrow> ('a \<Rightarrow> 'b prog) \<Rightarrow> 'b prog" where
  "bind m f = (\<lambda>b. case m b of (Inl e, b') \<Rightarrow> (Inl e, b') | (Inr x, b') \<Rightarrow> f x b')"

definition try_catch :: "'a prog \<Rightarrow> (exn \<Rightarrow> 'a prog) \<Rightarrow> 'a prog" where
  "try_catch m handler = (\<lambda>b. case m b of (Inl e, b') \<Rightarrow> handler e b' | (Inr x, b') \<Rightarrow> (Inr x, b'))"

definition modify :: "(browser \<Rightarrow> browser) \<Rightarrow> unit prog" where
  "modify f = (\<lambda>b. (Inr (), f b))"


text \<open>
  What the network answers to a request: the request fails (\<^verbatim>\<open>fetch\<close> rejects), or a
  response arrives with its \<^verbatim>\<open>ok\<close> flag and the value \<^verbatim>\<open>response.json()\<close> resolves to
  (\<open>None\<close> when the body is not JSON and \<^verbatim>\<open>json()\<close> rejects).
\<close>

datatype 'a reply = Rejects | Responds bool "'a option"

text \<open>
  A parsed body is \<^verbatim>\<open>null\<close>, on which every property access throws a \<^verbatim>\<open>TypeError\<close>, or
  a value whose properties can be read.
\<close>

datatype 'a json = JsonNull | JsonValue 'a

text \<open>
  The properties the service reads from the body of a ban check: \<^verbatim>\<open>status\<close> (compared
  with \<^verbatim>\<open>'banned'\<close>), \<^verbatim>\<open>isBanned\<close> (tested for truthiness) and \<^verbatim>\<open>ip\<close>.
\<close>

record ban_data =
  status :: "string option"
  isBanned_truthy :: bool
  ip_field :: "string option"

text \<open>The answers of the backend, one per endpoint.\<close>

record server =
  check_device :: "string \<Rightarrow> ban_data json reply"
  check_ip_status :: "ban_data json reply"
  admin_check_ip_banned :: "ban_data json reply"
  admin_register_device :: "exn option"
  admin_report_desktop_access :: "exn option"




text \<open>
  \<^verbatim>\<open>apiRequest(method, url, data)\<close> of \<^verbatim>\<open>@/lib/queryClient\<close> (not part of the sources):
  it issues the request and throws when the request fails or the response is not OK.
  The second argument is the exception it ends with, if any.
\<close>

definition apiRequest :: "request \<Rightarrow> exn option \<Rightarrow> unit prog" where
  "apiRequest req outcome =
     bind (modify (\<lambda>b. b\<lparr>requests := requests b @ [req]\<rparr>))
       (\<lambda>_. case outcome of None \<Rightarrow> ret () | Some e \<Rightarrow> throw e)"

subsection \<open>reportDesktopAccess\<close>

text \<open>
  \<^verbatim>\<open>try { const deviceId = this.generateDeviceId();
    localStorage.setItem(BANNED_DEVICE_KEY, deviceId);
    localStorage.setItem(BANNED_KEY, 'true');  sessionStorage.setItem(BANNED_KEY, 'true');
    document.cookie = `${BANNED_KEY}=true; expires=...; path=/`;
    await apiRequest("POST", "/api/admin/report-desktop-access", {...});
  } catch (error) {
    localStorage.setItem(BANNED_KEY, 'true');  sessionStorage.setItem(BANNED_KEY, 'true'); }\<close>
  The writes to the stores are taken to succeed here.
\<close>

definition reportDesktopAccess :: "server \<Rightarrow> device \<Rightarrow> int \<Rightarrow> unit prog" where
  "reportDesktopAccess srv d now =
     try_catch
       (let deviceId = generateDeviceId d now in
        bind (modify (localStorage_setItem BANNED_DEVICE_KEY deviceId)) (\<lambda>_.
        bind (modify (localStorage_setItem BANNED_KEY ''true'')) (\<lambda>_.
        bind (modify (sessionStorage_setItem BANNED_KEY ''true'')) (\<lambda>_.
        bind (modify (document_cookie_set
                (BANNED_KEY @ ''=true; expires=Fri, 31 Dec 9999 23:59:59 GMT; path=/''))) (\<lambda>_.
        apiRequest (POST_admin_report_desktop_access deviceId)
          (admin_report_desktop_access srv))))))
       (\<lambda>error.
        bind (modify (localStorage_setItem BANNED_KEY ''true'')) (\<lambda>_.
        modify (sessionStorage_setItem BANNED_KEY ''true'')))"

subsection \<open>Stores that the page may not access\<close>






subsection \<open>checkIfBanned\<close>











subsection \<open>Vocabulary for stating what checkIfBanned does\<close>

text \<open>
  The value a ban check can read from a reply: the response is OK, its body parses and
  is not \<^verbatim>\<open>null\<close>. In every other case the step logs the failure, or does nothing, and
  falls through.
\<close>

definition usable :: "'a json reply \<Rightarrow> 'a option" where
  "usable answer =
     (case answer of
        Responds ok body \<Rightarrow>
          (if ok then (case body of Some (JsonValue v) \<Rightarrow> Some v | _ \<Rightarrow> None) else None)
      | Rejects \<Rightarrow> None)"






definition example_browser_clean :: browser where
  "example_browser_clean =
     \<lparr>localStorage = Map.empty, sessionStorage = Map.empty, cookieJar = [], requests = []\<rparr>"

definition example_server :: server where
  "example_server =
     \<lparr>check_device = (\<lambda>d. Rejects),
      check_ip_status = Responds True (Some (JsonValue
        \<lparr>status = Some ''clean'', isBanned_truthy = False, ip_field = Some ''203.0.113.7''\<rparr>)),
      admin_check_ip_banned = Responds True (Some (JsonValue
        \<lparr>status = None, isBanned_truthy = True, ip_field = Some ''203.0.113.7''\<rparr>)),
      admin_register_device = None,
      admin_report_desktop_access = None\<rparr>"

section \<open>GeolocationService\<close>

subsection \<open>validatePostalCodeFormat\<close>

text \<open>
  The regular expressions of the pattern table are anchored sequences of character
  classes, each repeated between a least and a greatest number of times: a pattern is
  the list of its pieces \<open>(class, least, greatest)\<close>, and \<^verbatim>\<open>pattern.test(s)\<close> holds when
  \<open>s\<close> can be cut into consecutive runs, one per piece, of a permitted length and of
  characters of the class.
\<close>

type_synonym pattern = "((char \<Rightarrow> bool) \<times> nat \<times> nat) list"

fun test :: "pattern \<Rightarrow> string \<Rightarrow> bool" where
  "test [] s = (s = [])"
| "test ((cls, least, greatest) # pieces) s =
     list_ex (\<lambda>k. k \<le> length s \<and> list_all cls (take k s) \<and> test pieces (drop k s))
       [least..<Suc greatest]"

text \<open>\<^verbatim>\<open>\d\<close>, \<^verbatim>\<open>[A-Z]\<close> and the literal hyphen.\<close>

definition isDigit :: "char \<Rightarrow> bool" where
  "isDigit c = (c \<in> set ''0123456789'')"

definition isUpperAZ :: "char \<Rightarrow> bool" where
  "isUpperAZ c = (c \<in> set ''ABCDEFGHIJKLMNOPQRSTUVWXYZ'')"

definition isHyphen :: "char \<Rightarrow> bool" where
  "isHyphen c = (c = CHR ''-'')"

text \<open>
  \<^verbatim>\<open>const patterns = { 'CL': /^\d{7}$/, 'AR': /^[A-Z]\d{4}[A-Z]{3}$/, 'MX': /^\d{5}$/,
    'ES': /^\d{5}$/, 'BR': /^\d{5}-?\d{3}$/ };\<close>
\<close>

definition patterns :: "string \<rightharpoonup> pattern" where
  "patterns = map_of
     [(''CL'', [(isDigit, 7, 7)]),
      (''AR'', [(isUpperAZ, 1, 1), (isDigit, 4, 4), (isUpperAZ, 3, 3)]),
      (''MX'', [(isDigit, 5, 5)]),
      (''ES'', [(isDigit, 5, 5)]),
      (''BR'', [(isDigit, 5, 5), (isHyphen, 0, 1), (isDigit, 3, 3)])]"

text \<open>
  \<^verbatim>\<open>toUpperCase\<close> turns \<^verbatim>\<open>a-z\<close> into \<^verbatim>\<open>A-Z\<close>. The other characters are left as they are:
  JavaScript maps some characters above 127 to other characters above 127 (and the
  sharp s to \<^verbatim>\<open>SS\<close>), which never yields a key of the table, so the lookup is the same.
\<close>

definition toUpperChar :: "char \<Rightarrow> char" where
  "toUpperChar c =
     (case map_of (zip ''abcdefghijklmnopqrstuvwxyz'' ''ABCDEFGHIJKLMNOPQRSTUVWXYZ'') c of
        Some upper \<Rightarrow> upper | None \<Rightarrow> c)"

definition toUpperCase :: "string \<Rightarrow> string" where
  "toUpperCase s = map toUpperChar s"

text \<open>
  \<^verbatim>\<open>const pattern = patterns[country.toUpperCase()];
  return pattern ? pattern.test(code.replace(/\s/g, '')) : true;\<close>
\<close>

definition validatePostalCodeFormat :: "string \<Rightarrow> string \<Rightarrow> bool" where
  "validatePostalCodeFormat code country =
     (case patterns (toUpperCase country) of
        Some pattern \<Rightarrow> test pattern (filter (\<lambda>c. \<not> isWhiteSpace c) code)
      | None \<Rightarrow> True)"

subsection \<open>The Zipcodebase API\<close>

text \<open>
  An item of a result array of the API, with the properties the two copies of the
  service read from it. A property is a string, \<open>None\<close> when it is missing. The
  \<^verbatim>\<open>distance\<close> is missing (or another falsy value but zero), a number, or a non-empty
  text, which is given by the number \<^verbatim>\<open>parseFloat\<close> reads from it.
\<close>

datatype distance_field = NoDistance | DistanceNumber real | DistanceText jsnum

record api_item =
  item_city :: "string option"
  item_city_name :: "string option"
  item_state :: "string option"
  item_state_name :: "string option"
  item_province :: "string option"
  item_code :: "string option"
  item_postal_code :: "string option"
  item_country_code :: "string option"
  item_distance :: distance_field

text \<open>Truthiness: a missing property and the empty string are falsy, and so is zero.\<close>

definition truthy :: "string option \<Rightarrow> bool" where
  "truthy v = (case v of None \<Rightarrow> False | Some s \<Rightarrow> s \<noteq> [])"

definition truthyDistance :: "distance_field \<Rightarrow> bool" where
  "truthyDistance d =
     (case d of NoDistance \<Rightarrow> False | DistanceNumber x \<Rightarrow> x \<noteq> 0 | DistanceText n \<Rightarrow> True)"

text \<open>\<^verbatim>\<open>a || b\<close> on two properties.\<close>

definition or_js :: "string option \<Rightarrow> string option \<Rightarrow> string option" where
  "or_js a b = (if truthy a then a else b)"

text \<open>
  \<^verbatim>\<open>parseFloat\<close> of a truthy distance: a number is written out and read back unchanged,
  a text gives the number read from it, or \<^verbatim>\<open>NaN\<close>.
\<close>

definition parseFloat :: "distance_field \<Rightarrow> jsnum" where
  "parseFloat d = (case d of NoDistance \<Rightarrow> NaN | DistanceNumber x \<Rightarrow> Num x | DistanceText n \<Rightarrow> n)"

text \<open>
  The body of a reply of the \<^verbatim>\<open>search\<close> endpoint: \<^verbatim>\<open>data.results\<close> is missing, or maps
  a postal code to its array of items. The body of a reply of the \<^verbatim>\<open>radius\<close> endpoint:
  \<^verbatim>\<open>data.results\<close> is an array of items, or \<open>None\<close> when it is missing or not an array.
\<close>

record search_data =
  search_results :: "(string \<rightharpoonup> api_item list) option"

record radius_data =
  radius_results :: "api_item list option"

subsection \<open>validatePostalCodeWithZipcodebase\<close>

text \<open>
  \<^verbatim>\<open>interface PostalCodeValidationResult { isValid; country; region?; city?; error? }\<close>
  The field \<^verbatim>\<open>city\<close> is named \<open>city_of_result\<close>, the plain name being taken by
  \<open>Municipality\<close>.
\<close>

record PostalCodeValidationResult =
  isValid :: bool
  country :: string
  region :: "string option"
  city_of_result :: "string option"
  error :: "string option"

text \<open>
  The body of the \<^verbatim>\<open>try\<close> block, as a value or the exception it throws:
  \<^verbatim>\<open>if (!response.ok) throw new Error(...);  const data = await response.json();
  if (data.results && data.results[code] && data.results[code].length > 0) {
    const result = data.results[code][0];
    return { isValid: true, country: result.country_code || country,
             region: result.state || result.province, city: result.city }; }
  return { isValid: false, country: country, error: 'C\'odigo postal n\~ao encontrado' };\<close>
  The argument \<open>answer\<close> is what the network answers to the request for \<open>code\<close>.
\<close>

definition notFoundMessage :: string where
  "notFoundMessage = ''C'' @ [char_of (243 :: nat)] @ ''digo postal n'' @ [char_of (227 :: nat)]
     @ ''o encontrado''"

definition validatePostalCode_try ::
  "search_data json reply \<Rightarrow> string \<Rightarrow> string \<Rightarrow> exn + PostalCodeValidationResult" where
  "validatePostalCode_try answer code country_in =
     (case answer of
        Rejects \<Rightarrow> Inl NetworkError
      | Responds ok body \<Rightarrow>
          if \<not> ok then Inl HttpError
          else (case body of
             None \<Rightarrow> Inl SyntaxError
           | Some JsonNull \<Rightarrow> Inl TypeError
           | Some (JsonValue data) \<Rightarrow>
               (case search_results data of
                  None \<Rightarrow> Inr \<lparr>isValid = False, country = country_in, region = None,
                              city_of_result = None, error = Some notFoundMessage\<rparr>
                | Some results \<Rightarrow>
                    (case results code of
                       Some (result # others) \<Rightarrow>
                         Inr \<lparr>isValid = True,
                              country = (if truthy (item_country_code result)
                                         then the (item_country_code result) else country_in),
                              region = or_js (item_state result) (item_province result),
                              city_of_result = item_city result, error = None\<rparr>
                     | _ \<Rightarrow> Inr \<lparr>isValid = False, country = country_in, region = None,
                                 city_of_result = None, error = Some notFoundMessage\<rparr>))))"

text \<open>
  \<^verbatim>\<open>catch (error) { return { isValid: false, country: country,
     error: 'API returned invalid response' }; }\<close>
\<close>

definition validatePostalCodeWithZipcodebase ::
  "search_data json reply \<Rightarrow> string \<Rightarrow> string \<Rightarrow> exn + PostalCodeValidationResult" where
  "validatePostalCodeWithZipcodebase answer code country_in =
     (case validatePostalCode_try answer code country_in of
        Inl err \<Rightarrow> Inr \<lparr>isValid = False, country = country_in, region = None,
                          city_of_result = None, error = Some ''API returned invalid response''\<rparr>
      | Inr result \<Rightarrow> Inr result)"

text \<open>
  Example replies of the \<^verbatim>\<open>search\<close> endpoint for the code \<^verbatim>\<open>01310100\<close>: one result
  that carries no \<^verbatim>\<open>country_code\<close> and no \<^verbatim>\<open>state\<close>, and one result that carries both.
\<close>

definition example_item :: api_item where
  "example_item =
     \<lparr>item_city = Some ''Sao Paulo'', item_city_name = None, item_state = None,
      item_state_name = None, item_province = Some ''SP'', item_code = Some ''01310100'',
      item_postal_code = None, item_country_code = None, item_distance = NoDistance\<rparr>"

definition example_search_answer :: "search_data json reply" where
  "example_search_answer =
     Responds True (Some (JsonValue \<lparr>search_results = Some [''01310100'' \<mapsto> [example_item]]\<rparr>))"

definition example_search_answer_full :: "search_data json reply" where
  "example_search_answer_full =
     Responds True (Some (JsonValue \<lparr>search_results = Some [''01310100'' \<mapsto>
       [example_item\<lparr>item_country_code := Some ''BR'', item_state := Some ''Sao Paulo''\<rparr>]]\<rparr>))"

subsection \<open>getNearbyMunicipalities\<close>

text \<open>
  \<^verbatim>\<open>Array.prototype.findIndex\<close>: the index of the first element that satisfies the
  predicate, or -1.
\<close>

fun findIndex :: "('a \<Rightarrow> bool) \<Rightarrow> 'a list \<Rightarrow> int" where
  "findIndex P [] = - 1"
| "findIndex P (x # xs) =
     (if P x then 0 else (let i = findIndex P xs in if i < 0 then - 1 else i + 1))"

text \<open>
  \<^verbatim>\<open>municipalities.filter((municipality, index, self) =>
     index === self.findIndex(m => m.city === municipality.city))\<close>
\<close>

definition uniqueMunicipalities :: "Municipality list \<Rightarrow> Municipality list" where
  "uniqueMunicipalities self =
     map snd (filter (\<lambda>(index, municipality).
                  int index = findIndex (\<lambda>m. city m = city municipality) self)
                (enumerate 0 self))"

text \<open>
  \<^verbatim>\<open>Array.prototype.sort(compare)\<close> is a stable sort. It is modelled as the insertion sort
  that takes the elements from left to right and puts each one after the elements already
  placed that do not compare greater than it. For a comparator that orders the elements
  consistently every stable sort gives this result; for an inconsistent comparator the
  order JavaScript produces is implementation-defined, and the model fixes this one.
  A comparator result that is \<^verbatim>\<open>NaN\<close> counts as zero.
\<close>

fun insertBy :: "('a \<Rightarrow> 'a \<Rightarrow> real) \<Rightarrow> 'a \<Rightarrow> 'a list \<Rightarrow> 'a list" where
  "insertBy compare x [] = [x]"
| "insertBy compare x (y # ys) =
     (if compare y x > 0 then x # y # ys else y # insertBy compare x ys)"

definition sortBy :: "('a \<Rightarrow> 'a \<Rightarrow> real) \<Rightarrow> 'a list \<Rightarrow> 'a list" where
  "sortBy compare xs = foldl (\<lambda>sorted x. insertBy compare x sorted) [] xs"

text \<open>
  The service (\<^verbatim>\<open>client/src/services/GeolocationService.ts\<close>) turns an item into
  \<^verbatim>\<open>{ city: item.city || 'Ciudad Desconocida', state: item.state || '',
     postal_code: item.code,
     distance: item.distance ? parseFloat(item.distance.toString()) : 0 }\<close>
\<close>

definition toMunicipality :: "api_item \<Rightarrow> Municipality" where
  "toMunicipality item =
     \<lparr>city = (if truthy (item_city item) then the (item_city item) else ''Ciudad Desconocida''),
      state = Some (if truthy (item_state item) then the (item_state item) else []),
      postal_code = item_code item,
      distance = Some (if truthyDistance (item_distance item)
                       then parseFloat (item_distance item) else Num 0)\<rparr>"

text \<open>
  \<^verbatim>\<open>uniqueMunicipalities.sort((a, b) => { const distA = a.distance || 999;
     const distB = b.distance || 999;  return distA - distB; });\<close>
  \<^verbatim>\<open>a.distance || 999\<close> is 999 when the distance is undefined, zero or \<^verbatim>\<open>NaN\<close>.
\<close>

definition distanceOr999 :: "Municipality \<Rightarrow> real" where
  "distanceOr999 m =
     (case distance m of Some (Num x) \<Rightarrow> if x = 0 then 999 else x | _ \<Rightarrow> 999)"

definition compareDistance :: "Municipality \<Rightarrow> Municipality \<Rightarrow> real" where
  "compareDistance a b = distanceOr999 a - distanceOr999 b"

text \<open>
  \<^verbatim>\<open>getNearbyMunicipalities\<close> of the service, as a function of what the network answers
  to the \<^verbatim>\<open>radius\<close> request: a response that is not OK throws, a body without a
  \<^verbatim>\<open>results\<close> array gives the empty list, and the handler logs the exception and throws
  it again.
\<close>

definition getNearbyMunicipalities :: "radius_data json reply \<Rightarrow> exn + Municipality list" where
  "getNearbyMunicipalities answer =
     (case answer of
        Rejects \<Rightarrow> Inl NetworkError
      | Responds ok body \<Rightarrow>
          if \<not> ok then Inl HttpError
          else (case body of
             None \<Rightarrow> Inl SyntaxError
           | Some JsonNull \<Rightarrow> Inl TypeError
           | Some (JsonValue data) \<Rightarrow>
               (case radius_results data of
                  None \<Rightarrow> Inr []
                | Some results \<Rightarrow>
                    Inr (sortBy compareDistance
                          (uniqueMunicipalities (map toMunicipality results))))))"

text \<open>
  The copy of the service that follows the Municipios page in
  \<^verbatim>\<open>client/src/components/PageTitle.tsx\<close> turns an item into
  \<^verbatim>\<open>{ city: item.city || item.city_name || 'Ciudad Desconocida',
     state: item.state || item.state_name || item.province,
     postal_code: item.postal_code || item.code,
     distance: item.distance ? parseFloat(item.distance) : undefined }\<close>
\<close>

definition toMunicipality_copy :: "api_item \<Rightarrow> Municipality" where
  "toMunicipality_copy item =
     \<lparr>city = (if truthy (item_city item) then the (item_city item)
              else if truthy (item_city_name item) then the (item_city_name item)
              else ''Ciudad Desconocida''),
      state = or_js (item_state item) (or_js (item_state_name item) (item_province item)),
      postal_code = or_js (item_postal_code item) (item_code item),
      distance = (if truthyDistance (item_distance item)
                  then Some (parseFloat (item_distance item)) else None)\<rparr>"

text \<open>
  \<^verbatim>\<open>uniqueMunicipalities.sort((a, b) => {
     if (a.distance !== undefined && b.distance !== undefined) return a.distance - b.distance;
     return a.city.localeCompare(b.city); });\<close>
  \<^verbatim>\<open>localeCompare\<close> depends on the locale of the browser and is a parameter. A
  difference with a \<^verbatim>\<open>NaN\<close> operand is \<^verbatim>\<open>NaN\<close>, which the sort takes as zero.
\<close>

definition compareDistance_copy ::
  "(string \<Rightarrow> string \<Rightarrow> real) \<Rightarrow> Municipality \<Rightarrow> Municipality \<Rightarrow> real" where
  "compareDistance_copy localeCompare a b =
     (case (distance a, distance b) of
        (Some da, Some db) \<Rightarrow>
          (case (da, db) of (Num x, Num y) \<Rightarrow> x - y | _ \<Rightarrow> 0)
      | _ \<Rightarrow> localeCompare (city a) (city b))"

text \<open>In the copy the handler logs the exception and returns the empty list.\<close>

definition getNearbyMunicipalities_copy ::
  "(string \<Rightarrow> string \<Rightarrow> real) \<Rightarrow> radius_data json reply \<Rightarrow> exn + Municipality list" where
  "getNearbyMunicipalities_copy localeCompare answer =
     (case
        (case answer of
           Rejects \<Rightarrow> Inl NetworkError
         | Responds ok body \<Rightarrow>
             if \<not> ok then Inl HttpError
             else (case body of
                None \<Rightarrow> Inl SyntaxError
              | Some JsonNull \<Rightarrow> Inl TypeError
              | Some (JsonValue data) \<Rightarrow>
                  (case radius_results data of
                     None \<Rightarrow> Inr []
                   | Some results \<Rightarrow>
                       Inr (sortBy (compareDistance_copy localeCompare)
                             (uniqueMunicipalities (map toMunicipality_copy results))))))
      of Inl err \<Rightarrow> Inr [] | Inr municipalities \<Rightarrow> Inr municipalities)"

text \<open>
  \<^verbatim>\<open>a <= b\<close> on two optional numbers: false when one of them is \<^verbatim>\<open>undefined\<close> or
  \<^verbatim>\<open>NaN\<close>.
\<close>

definition lessEqual :: "jsnum option \<Rightarrow> jsnum option \<Rightarrow> bool" where
  "lessEqual a b = (case (a, b) of (Some (Num x), Some (Num y)) \<Rightarrow> x \<le> y | _ \<Rightarrow> False)"

text \<open>An item whose distance is a number other than zero.\<close>

definition hasNonZeroDistance :: "api_item \<Rightarrow> bool" where
  "hasNonZeroDistance item =
     (case item_distance item of
        NoDistance \<Rightarrow> False
      | DistanceNumber x \<Rightarrow> x \<noteq> 0
      | DistanceText n \<Rightarrow> (case n of NaN \<Rightarrow> False | Num x \<Rightarrow> x \<noteq> 0))"

text \<open>
  An item with a non-empty city and state, no \<^verbatim>\<open>postal_code\<close> property and a distance
  that is a number other than zero.
\<close>

definition plainItem :: "api_item \<Rightarrow> bool" where
  "plainItem item =
     (truthy (item_city item) \<and> truthy (item_state item) \<and> \<not> truthy (item_postal_code item)
      \<and> hasNonZeroDistance item)"

text \<open>Example replies of the \<^verbatim>\<open>radius\<close> endpoint.\<close>

definition example_radius_item :: "string \<Rightarrow> distance_field \<Rightarrow> api_item" where
  "example_radius_item name d =
     \<lparr>item_city = Some name, item_city_name = None, item_state = Some ''RM'',
      item_state_name = None, item_province = None, item_code = Some ''7500000'',
      item_postal_code = None, item_country_code = None, item_distance = d\<rparr>"

definition example_radius_answer :: "radius_data json reply" where
  "example_radius_answer =
     Responds True (Some (JsonValue \<lparr>radius_results = Some
       [example_radius_item ''Providencia'' (DistanceNumber 5),
        example_radius_item ''Santiago'' (DistanceNumber 0)]\<rparr>))"

definition example_radius_answer_plain :: "radius_data json reply" where
  "example_radius_answer_plain =
     Responds True (Some (JsonValue \<lparr>radius_results = Some
       [example_radius_item ''Providencia'' (DistanceNumber 5),
        example_radius_item ''Santiago'' (DistanceNumber 2),
        example_radius_item ''Providencia'' (DistanceNumber 1)]\<rparr>))"

text \<open>A \<^verbatim>\<open>localeCompare\<close> that finds every two names equal, for the examples.\<close>

definition example_localeCompare :: "string \<Rightarrow> string \<Rightarrow> real" where
  "example_localeCompare a b = 0"

text \<open>
  The index \<open>i\<close> is the first one at which the city of \<open>ms ! i\<close> occurs in \<open>ms\<close>.
\<close>

definition firstAt :: "Municipality list \<Rightarrow> nat \<Rightarrow> bool" where
  "firstAt ms i = (\<forall>j<i. city (ms ! j) \<noteq> city (ms ! i))"

section \<open>Delivery estimates (Municipios page)\<close>

text \<open>
  \<^verbatim>\<open>interface Municipio { nome; selecionado; entregas; distance?; state? }\<close> of the
  Municipios page. The two optional fields are named \<open>m_distance\<close> and \<open>m_state\<close> here,
  the plain names being taken by \<open>Municipality\<close>.
\<close>

record Municipio =
  nome :: string
  selecionado :: bool
  entregas :: int
  m_distance :: "jsnum option"
  m_state :: "string option"

text \<open>
  \<^verbatim>\<open>Math.random()\<close> returns a double in \<open>[0, 1)\<close>. Every such double is
  \<open>significand / 2 ^ scale\<close> for a significand below \<open>2 ^ 53\<close> and a scale from 53 to
  1074: a normal double below 1 has a 53-bit significand and a scale from 53 to 1074, a
  subnormal one has a significand below \<open>2 ^ 52\<close> and the scale 1074, and zero has the
  significand 0.
\<close>

record unit_double =
  significand :: nat
  scale :: nat

definition isUnitDouble :: "unit_double \<Rightarrow> bool" where
  "isUnitDouble u = (significand u < 2 ^ 53 \<and> 53 \<le> scale u \<and> scale u \<le> 1074)"

text \<open>The number of binary digits of \<open>n\<close>.\<close>

function bitLength :: "nat \<Rightarrow> nat" where
  "bitLength n = (if n = 0 then 0 else Suc (bitLength (n div 2)))"
  by pat_completeness auto
termination
  by (relation "measure (\<lambda>n. n)") auto

declare bitLength.simps [simp del]

text \<open>
  \<open>n / 2 ^ s\<close> rounded to the nearest integer, a tie going to the even one: the rounding
  of IEEE 754 arithmetic.
\<close>

definition roundHalfEven :: "nat \<Rightarrow> nat \<Rightarrow> nat" where
  "roundHalfEven n s =
     (let q = n div 2 ^ s; r = n mod 2 ^ s in
      if 2 * r < 2 ^ s then q
      else if 2 ^ s < 2 * r then q + 1
      else if even q then q else q + 1)"

text \<open>
  The double product \<^verbatim>\<open>random * c\<close> of a double \<open>random\<close> of \<open>[0, 1)\<close> and a whole number
  \<open>c\<close>, as the numerator of a fraction over \<open>2 ^ scale random\<close>. The exact product has the
  numerator \<open>c * significand random\<close>; a double keeps 53 binary digits, so the digits of
  the numerator past the first 53 are rounded away. (A numerator of more than 53 digits
  makes the product at least \<open>2 ^ 53 / 2 ^ 1074\<close>, a normal double, so that 53 digits are
  kept; a numerator of at most 53 digits is a multiple of \<open>1 / 2 ^ 1074\<close> and is exact.)
\<close>

definition timesDouble :: "nat \<Rightarrow> unit_double \<Rightarrow> nat" where
  "timesDouble c u =
     (let n = c * significand u; s = bitLength n - 53 in roundHalfEven n s * 2 ^ s)"

text \<open>
  \<^verbatim>\<open>const getRandomEntregas = () => Math.floor(Math.random() * (48 - 32 + 1)) + 32;\<close>
  The value drawn from \<^verbatim>\<open>Math.random()\<close> is the argument. \<^verbatim>\<open>Math.floor\<close> of the rounded
  product is the quotient of its numerator by \<open>2 ^ scale random\<close>; the floor is a whole
  number below \<open>2 ^ 53\<close>, so adding 32 is exact.
\<close>

definition getRandomEntregas :: "unit_double \<Rightarrow> int" where
  "getRandomEntregas random = int (timesDouble (48 - 32 + 1) random div 2 ^ scale random) + 32"

text \<open>
  The double \<open>8477364004462110 / 2 ^ 53\<close> (0.9411764705882353), whose exact product with 17
  is below 16 and whose double product is 16; and the double 1/2.
\<close>

definition example_random :: unit_double where
  "example_random = \<lparr>significand = 8477364004462110, scale = 53\<rparr>"

definition example_random_half :: unit_double where
  "example_random_half = \<lparr>significand = 4503599627370496, scale = 53\<rparr>"

text \<open>A random source that yields the two doubles in turn.\<close>

definition example_draws :: "nat \<Rightarrow> unit_double" where
  "example_draws i = (if even i then example_random else example_random_half)"

text \<open>
  The random source is the sequence of values \<^verbatim>\<open>Math.random()\<close> returns, \<open>rand n\<close> being
  the \<open>n\<close>-th draw; a \<^verbatim>\<open>map\<close> that calls \<^verbatim>\<open>getRandomEntregas()\<close> once per element
  consumes one draw per element, starting at the position \<open>n\<close> the source has reached.

  API-backed path (\<^verbatim>\<open>loadNearbyMunicipalities\<close>):
  \<^verbatim>\<open>municipalities.map(municipality => ({ nome: municipality.city, selecionado: false,
     entregas: getRandomEntregas(), distance: municipality.distance, state: municipality.state }))\<close>
\<close>

fun municipiosFormatados :: "(nat \<Rightarrow> unit_double) \<Rightarrow> nat \<Rightarrow> Municipality list \<Rightarrow> Municipio list" where
  "municipiosFormatados rand n [] = []"
| "municipiosFormatados rand n (municipality # rest) =
     \<lparr>nome = city municipality, selecionado = False,
      entregas = getRandomEntregas (rand n),
      m_distance = distance municipality, m_state = state municipality\<rparr>
     # municipiosFormatados rand (Suc n) rest"

text \<open>
  Brazilian static path: the names of the user's state, taken from the table
  \<^verbatim>\<open>municipiosPorEstado\<close> (a data file that is not part of the sources, so the list of
  names is the argument):
  \<^verbatim>\<open>municipiosPorEstado[estadoSigla].map((nome: string) => ({ nome, selecionado: false,
     entregas: getRandomEntregas() }))\<close>
\<close>

fun municipiosDoEstado :: "(nat \<Rightarrow> unit_double) \<Rightarrow> nat \<Rightarrow> string list \<Rightarrow> Municipio list" where
  "municipiosDoEstado rand n [] = []"
| "municipiosDoEstado rand n (nomeDoMunicipio # rest) =
     \<lparr>nome = nomeDoMunicipio, selecionado = False, entregas = getRandomEntregas (rand n),
      m_distance = None, m_state = None\<rparr>
     # municipiosDoEstado rand (Suc n) rest"

subsection \<open>The start dates (getNextThreeDays)\<close>

text \<open>
  A \<^verbatim>\<open>Date\<close> object as the local time it shows: \<^verbatim>\<open>getFullYear()\<close>, \<^verbatim>\<open>getMonth()\<close>
  (0 for January to 11 for December), \<^verbatim>\<open>getDate()\<close> (the day of the month, from 1) and
  the time within the day in milliseconds from local midnight.
\<close>

record jsdate =
  getFullYear :: int
  getMonth :: nat
  getDate :: nat
  timeWithinDay :: nat

definition msPerDay :: nat where
  "msPerDay = 86400000"

definition isLeapYear :: "int \<Rightarrow> bool" where
  "isLeapYear y = (y mod 4 = 0 \<and> (y mod 100 \<noteq> 0 \<or> y mod 400 = 0))"

definition daysInMonth :: "int \<Rightarrow> nat \<Rightarrow> nat" where
  "daysInMonth y m =
     (if m = 1 then (if isLeapYear y then 29 else 28)
      else if m = 3 \<or> m = 5 \<or> m = 8 \<or> m = 10 then 30 else 31)"

definition firstOfNextMonth :: "jsdate \<Rightarrow> jsdate" where
  "firstOfNextMonth d =
     (if getMonth d < 11 then d\<lparr>getMonth := getMonth d + 1, getDate := 1\<rparr>
      else d\<lparr>getFullYear := getFullYear d + 1, getMonth := 0, getDate := 1\<rparr>)"

definition previousMonth :: "jsdate \<Rightarrow> jsdate" where
  "previousMonth d =
     (if 0 < getMonth d then d\<lparr>getMonth := getMonth d - 1\<rparr>
      else d\<lparr>getFullYear := getFullYear d - 1, getMonth := 11\<rparr>)"

text \<open>
  The first step of \<^verbatim>\<open>date.setDate(n)\<close>, in the words of the language standard
  \<open>MakeDate(MakeDay(YearFromTime(t), MonthFromTime(t), n), TimeWithinDay(t))\<close> for the
  local time \<open>t\<close> of \<open>date\<close>: the day of the month is counted from the start of the month
  of \<open>date\<close>, so that a day past the end of the month falls in a following month and a
  day before the first in a preceding one; the time within the day is kept.
\<close>

function makeDay :: "jsdate \<Rightarrow> int \<Rightarrow> jsdate" where
  "makeDay d n =
     (if int (daysInMonth (getFullYear d) (getMonth d)) < n
      then makeDay (firstOfNextMonth d) (n - int (daysInMonth (getFullYear d) (getMonth d)))
      else if n < 1
      then makeDay (previousMonth d)
             (n + int (daysInMonth (getFullYear (previousMonth d)) (getMonth (previousMonth d))))
      else d\<lparr>getDate := nat n\<rparr>)"
  by pat_completeness auto
termination
  by (relation "measures [\<lambda>(d, n). if n < 1 then 1 else 0,
                          \<lambda>(d, n). if n < 1 then nat (1 - n) else nat n]")
     (auto simp: daysInMonth_def)

declare makeDay.simps [simp del]

text \<open>
  The number of days between a date and 1 January 1970, and \<^verbatim>\<open>getDay()\<close>: the day of the
  week, 0 for Sunday (1 January 1970 was a Thursday).
\<close>

definition daysFromCivil :: "int \<Rightarrow> nat \<Rightarrow> nat \<Rightarrow> int" where
  "daysFromCivil y m d =
     (let y' = (if m < 2 then y - 1 else y);
          era = y' div 400;
          yoe = y' - era * 400;
          mp = (int m + 10) mod 12;
          doy = (153 * mp + 2) div 5 + int d - 1;
          doe = yoe * 365 + yoe div 4 - yoe div 100 + doy
      in era * 146097 + doe - 719468)"

definition getDay :: "jsdate \<Rightarrow> nat" where
  "getDay d = nat ((daysFromCivil (getFullYear d) (getMonth d) (getDate d) + 4) mod 7)"

text \<open>A calendar date: a month from 0 to 11 and a day that the month has.\<close>

definition validDate :: "jsdate \<Rightarrow> bool" where
  "validDate d =
     (getMonth d < 12 \<and> 1 \<le> getDate d \<and> getDate d \<le> daysInMonth (getFullYear d) (getMonth d))"

text \<open>The calendar day after \<open>d\<close>, at the same time within the day.\<close>

definition nextDay :: "jsdate \<Rightarrow> jsdate" where
  "nextDay d =
     (if getDate d < daysInMonth (getFullYear d) (getMonth d) then d\<lparr>getDate := getDate d + 1\<rparr>
      else firstOfNextMonth d)"

text \<open>
  The time zone of the browser. Where the clocks of a zone are put forward, a stretch of
  local times is skipped: no instant shows them. A zone is given by these stretches, each
  by its first skipped local time and its length in milliseconds. (Where the clocks are
  put back, local times are shown twice; every one of them is shown by some instant.)
\<close>

record gap =
  gapStart :: jsdate
  gapLength :: nat

type_synonym zone = "gap list"

text \<open>A local time as milliseconds on the local time line.\<close>

definition localMs :: "jsdate \<Rightarrow> int" where
  "localMs d = daysFromCivil (getFullYear d) (getMonth d) (getDate d) * int msPerDay
                 + int (timeWithinDay d)"

definition skipped :: "gap \<Rightarrow> jsdate \<Rightarrow> bool" where
  "skipped g d = (localMs (gapStart g) \<le> localMs d
                    \<and> localMs d < localMs (gapStart g) + int (gapLength g))"

definition isSkipped :: "zone \<Rightarrow> jsdate \<Rightarrow> bool" where
  "isSkipped zone d = list_ex (\<lambda>g. skipped g d) zone"

primrec addDays :: "nat \<Rightarrow> jsdate \<Rightarrow> jsdate" where
  "addDays 0 d = d"
| "addDays (Suc n) d = nextDay (addDays n d)"

definition addMilliseconds :: "jsdate \<Rightarrow> nat \<Rightarrow> jsdate" where
  "addMilliseconds d ms =
     (let t = timeWithinDay d + ms
      in (addDays (t div msPerDay) d)\<lparr>timeWithinDay := t mod msPerDay\<rparr>)"

text \<open>
  The second step of \<^verbatim>\<open>date.setDate(n)\<close>: the object is set to the instant \<open>UTC(t)\<close> of
  the local time \<open>t\<close> made in the first step, and from then on shows the local time of
  that instant. A local time that exists is shown as it is. A skipped local time is read
  with the offset in force before the clocks were put forward, so that the instant shows
  the local time later by the length of the skipped stretch.
\<close>

definition localTimeOfUTC :: "zone \<Rightarrow> jsdate \<Rightarrow> jsdate" where
  "localTimeOfUTC zone t =
     (case find (\<lambda>g. skipped g t) zone of
        None \<Rightarrow> t
      | Some g \<Rightarrow> addMilliseconds t (gapLength g))"

definition setDate :: "zone \<Rightarrow> jsdate \<Rightarrow> int \<Rightarrow> jsdate" where
  "setDate zone date n = localTimeOfUTC zone (makeDay date n)"

text \<open>
  \<^verbatim>\<open>const days = ['Domingo', 'Lunes', 'Martes', 'Mi\'ercoles', 'Jueves', 'Viernes', 'S\'abado'];
  const months = ['01', '02', '03', '04', '05', '06', '07', '08', '09', '10', '11', '12'];\<close>
\<close>

definition days :: "string list" where
  "days = [''Domingo'', ''Lunes'', ''Martes'', ''Mi'' @ [CHR 0xE9] @ ''rcoles'', ''Jueves'',
           ''Viernes'', ''S'' @ [CHR 0xE1] @ ''bado'']"

definition months :: "string list" where
  "months = [''01'', ''02'', ''03'', ''04'', ''05'', ''06'', ''07'', ''08'', ''09'', ''10'',
             ''11'', ''12'']"

text \<open>The objects \<^verbatim>\<open>{ full, value }\<close> the function returns.\<close>

record start_date =
  full_text :: string
  value_text :: string

text \<open>
  \<^verbatim>\<open>const dayName = days[date.getDay()];  const dayNumber = date.getDate();
  const monthNumber = months[date.getMonth()];
  dates.push({ full: `${dayName} ${dayNumber}/${monthNumber}`,
               value: `${dayNumber}/${monthNumber}/2025` });\<close>
\<close>

definition startDateOf :: "jsdate \<Rightarrow> start_date" where
  "startDateOf date =
     (let dayName = days ! getDay date;
          dayNumber = toStringRadix 10 (int (getDate date));
          monthNumber = months ! getMonth date
      in \<lparr>full_text = dayName @ '' '' @ dayNumber @ ''/'' @ monthNumber,
          value_text = dayNumber @ ''/'' @ monthNumber @ ''/2025''\<rparr>)"

text \<open>
  \<^verbatim>\<open>const today = new Date();
  for (let i = 1; i <= 3; i++) { const date = new Date();
    date.setDate(today.getDate() + i);  ...  dates.push(...); }\<close>
  Every \<^verbatim>\<open>new Date()\<close> reads the clock: \<open>clock 0\<close> is the local time read for \<open>today\<close>,
  \<open>clock i\<close> the one read for \<open>date\<close> in round \<open>i\<close> of the loop.
\<close>

function nextThreeDaysLoop ::
  "zone \<Rightarrow> (nat \<Rightarrow> jsdate) \<Rightarrow> jsdate \<Rightarrow> nat \<Rightarrow> start_date list \<Rightarrow> start_date list" where
  "nextThreeDaysLoop zone clock today i dates =
     (if i \<le> 3
      then nextThreeDaysLoop zone clock today (i + 1)
             (dates @ [startDateOf (setDate zone (clock i) (int (getDate today) + int i))])
      else dates)"
  by pat_completeness auto
termination
  by (relation "measure (\<lambda>(zone, clock, today, i, dates). 4 - i)") auto

declare nextThreeDaysLoop.simps [simp del]

definition getNextThreeDays :: "zone \<Rightarrow> (nat \<Rightarrow> jsdate) \<Rightarrow> start_date list" where
  "getNextThreeDays zone clock = nextThreeDaysLoop zone clock (clock 0) 1 []"

text \<open>
  The three local times the loop makes before they are set: day \<open>getDate today + i\<close> of
  the month that \<open>clock i\<close> shows, at the time within the day that \<open>clock i\<close> shows.
\<close>

definition madeTime :: "(nat \<Rightarrow> jsdate) \<Rightarrow> nat \<Rightarrow> jsdate" where
  "madeTime clock i = makeDay (clock i) (int (getDate (clock 0)) + int i)"

text \<open>Two local times of the same month of the same year.\<close>

definition sameMonth :: "jsdate \<Rightarrow> jsdate \<Rightarrow> bool" where
  "sameMonth d e = (getFullYear d = getFullYear e \<and> getMonth d = getMonth e)"

text \<open>
  Example clocks and zones. Noon of 30 December 2024, read four times a millisecond
  apart, in a zone whose clocks are put forward by an hour at 2 o'clock of
  30 March 2025.
\<close>

definition example_today :: jsdate where
  "example_today = \<lparr>getFullYear = 2024, getMonth = 11, getDate = 30, timeWithinDay = 43200000\<rparr>"

definition example_clock :: "nat \<Rightarrow> jsdate" where
  "example_clock i = example_today\<lparr>timeWithinDay := 43200000 + i\<rparr>"

definition example_zone :: zone where
  "example_zone =
     [\<lparr>gapStart = \<lparr>getFullYear = 2025, getMonth = 2, getDate = 30, timeWithinDay = 7200000\<rparr>,
       gapLength = 3600000\<rparr>]"

text \<open>
  The zone Pacific/Apia, which skipped 30 December 2011 (a stretch of 24 hours from
  local midnight), and a clock that shows noon of 28 December 2011.
\<close>

definition zone_Apia :: zone where
  "zone_Apia =
     [\<lparr>gapStart = \<lparr>getFullYear = 2011, getMonth = 11, getDate = 30, timeWithinDay = 0\<rparr>,
       gapLength = 86400000\<rparr>]"

definition example_clock_Apia :: "nat \<Rightarrow> jsdate" where
  "example_clock_Apia i =
     \<lparr>getFullYear = 2011, getMonth = 11, getDate = 28, timeWithinDay = 43200000\<rparr>"

text \<open>
  A clock read for \<open>today\<close> in the last millisecond of 31 January 2025 and read in the
  loop from midnight of 1 February 2025 on.
\<close>

definition example_clock_midnight :: "nat \<Rightarrow> jsdate" where
  "example_clock_midnight i =
     (if i = 0
      then \<lparr>getFullYear = 2025, getMonth = 0, getDate = 31, timeWithinDay = 86399999\<rparr>
      else \<lparr>getFullYear = 2025, getMonth = 1, getDate = 1, timeWithinDay = i - 1\<rparr>)"

section \<open>Properties of the local ban\<close>

lemma startsWith_iff: "startsWith s p \<longleftrightarrow> (\<exists>r. s = p @ r)"
  unfolding startsWith_def
proof
  assume "take (length p) s = p"
  then have "s = p @ drop (length p) s" by (metis append_take_drop_id)
  then show "\<exists>r. s = p @ r" ..
next
  assume "\<exists>r. s = p @ r"
  then show "take (length p) s = p" by auto
qed

lemma split_no_sep: "c \<notin> set s \<Longrightarrow> split c s = [s]"
  by (induction s) auto

lemma split_append_sep: "c \<notin> set s \<Longrightarrow> split c (s @ c # t) = s # split c t"
  by (induction s) auto

lemma split_join_Cons:
  assumes "\<forall>y \<in> set (x # rest). CHR '';'' \<notin> set y"
  shows "split CHR '';'' (join ''; '' (x # rest)) = x # map (\<lambda>y. CHR '' '' # y) rest"
  using assms
proof (induction rest arbitrary: x)
  case Nil
  then show ?case by (simp add: split_no_sep)
next
  case (Cons y ys)
  have "split CHR '';'' (join ''; '' (y # ys)) = y # map (\<lambda>y. CHR '' '' # y) ys"
    using Cons.prems by (intro Cons.IH) simp
  moreover have "CHR '';'' \<notin> set x" using Cons.prems by simp
  ultimately show ?case by (simp add: split_append_sep)
qed

lemma trim_space_Cons: "trim (CHR '' '' # s) = trim s"
  by (simp add: trim_def isWhiteSpace_def)

text \<open>Removing trailing white space does not change whether a text starts with \<open>p\<close>.\<close>

lemma startsWith_strip_trailing:
  assumes "p \<noteq> []" and "\<not> isWhiteSpace (last p)"
  shows "startsWith (rev (dropWhile isWhiteSpace (rev s))) p \<longleftrightarrow> startsWith s p"
proof -
  define w where "w = rev (takeWhile isWhiteSpace (rev s))"
  define a where "a = rev (dropWhile isWhiteSpace (rev s))"
  have s: "s = a @ w"
    unfolding a_def w_def by (metis rev_append rev_rev_ident takeWhile_dropWhile_id)
  have w: "\<forall>c \<in> set w. isWhiteSpace c"
    unfolding w_def using set_takeWhileD by fastforce
  show ?thesis
  proof
    assume "startsWith (rev (dropWhile isWhiteSpace (rev s))) p"
    then obtain r where "a = p @ r" unfolding startsWith_iff a_def by blast
    with s have "s = p @ (r @ w)" by simp
    then show "startsWith s p" unfolding startsWith_iff by blast
  next
    assume "startsWith s p"
    then obtain r where r: "a @ w = p @ r" unfolding startsWith_iff using s by metis
    then consider (1) u where "a = p @ u" | (2) u where "u \<noteq> []" "p = a @ u" "w = u @ r"
      by (auto simp: append_eq_append_conv2) (metis append.right_neutral)
    then show "startsWith (rev (dropWhile isWhiteSpace (rev s))) p"
    proof cases
      case 1
      then show ?thesis unfolding startsWith_iff a_def [symmetric] by blast
    next
      case 2
      then have "last p = last u" by simp
      moreover have "last u \<in> set w" using 2 by simp
      ultimately show ?thesis using w assms by auto
    qed
  qed
qed


lemma trim_startsWith:
  assumes "s = [] \<or> \<not> isWhiteSpace (hd s)" and "p \<noteq> []" and "\<not> isWhiteSpace (last p)"
  shows "startsWith (trim s) p \<longleftrightarrow> startsWith s p"
proof -
  have "dropWhile isWhiteSpace s = s" using assms(1) by (cases s) auto
  then show ?thesis
    unfolding trim_def using startsWith_strip_trailing [OF assms(2,3)] by simp
qed

lemma cookieText_valid:
  assumes "validCookie c"
  shows "cookieText c = [] \<or> \<not> isWhiteSpace (hd (cookieText c))"
    and "CHR '';'' \<notin> set (cookieText c)"
  using assms by (auto simp: validCookie_def cookieText_def)

lemma append_sep_eq:
  "c \<notin> set a \<Longrightarrow> c \<notin> set b \<Longrightarrow> (a @ c # x = b @ c # y) \<longleftrightarrow> (a = b \<and> x = y)"
proof (induction a arbitrary: b)
  case Nil
  then show ?case by (cases b) auto
next
  case (Cons h a)
  then show ?case by (cases b) auto
qed

lemma cookie_match:
  assumes "validCookie c"
  shows "startsWith (trim (cookieText c)) (BANNED_KEY @ ''=true'') \<longleftrightarrow> banCookie c"
proof -
  have t: "startsWith (trim (cookieText c)) (BANNED_KEY @ ''=true'')
        \<longleftrightarrow> startsWith (cookieText c) (BANNED_KEY @ ''=true'')"
    using cookieText_valid(1) [OF assms]
    by (intro trim_startsWith) (simp_all add: isWhiteSpace_def)
  show ?thesis
  proof (cases "fst c = []")
    case True
    then show ?thesis using t by (simp add: cookieText_def banCookie_def)
  next
    case False
    have k: "CHR ''='' \<notin> set BANNED_KEY" by (simp add: BANNED_KEY_def)
    have n: "CHR ''='' \<notin> set (fst c)" using assms by (simp add: validCookie_def)
    have "startsWith (cookieText c) (BANNED_KEY @ ''=true'')
          \<longleftrightarrow> (\<exists>r. fst c @ CHR ''='' # snd c = BANNED_KEY @ CHR ''='' # (''true'' @ r))"
      using False by (simp add: startsWith_iff cookieText_def)
    also have "\<dots> \<longleftrightarrow> fst c = BANNED_KEY \<and> (\<exists>r. snd c = ''true'' @ r)"
      by (simp add: append_sep_eq [OF n k])
    finally show ?thesis using t False by (simp add: startsWith_iff banCookie_def)
  qed
qed

lemma cookie_check:
  assumes "list_all validCookie jar"
  shows "list_ex (\<lambda>cookie. startsWith (trim cookie) (BANNED_KEY @ ''=true''))
           (split CHR '';'' (join ''; '' (map cookieText jar)))
         \<longleftrightarrow> list_ex banCookie jar"
proof (cases jar)
  case Nil
  then show ?thesis by (simp add: trim_def startsWith_def BANNED_KEY_def)
next
  case (Cons c rest)
  have v: "\<forall>d \<in> set jar. validCookie d" using assms by (simp add: list_all_iff)
  then have "\<forall>y \<in> set (cookieText c # map cookieText rest). CHR '';'' \<notin> set y"
    using Cons cookieText_valid(2) by auto
  then have "split CHR '';'' (join ''; '' (map cookieText jar))
             = cookieText c # map (\<lambda>y. CHR '' '' # y) (map cookieText rest)"
    using Cons split_join_Cons by simp
  then have "list_ex (\<lambda>cookie. startsWith (trim cookie) (BANNED_KEY @ ''=true''))
           (split CHR '';'' (join ''; '' (map cookieText jar)))
        \<longleftrightarrow> (\<exists>d \<in> set jar. startsWith (trim (cookieText d)) (BANNED_KEY @ ''=true''))"
    using Cons by (simp add: list_ex_iff trim_space_Cons)
  also have "\<dots> \<longleftrightarrow> (\<exists>d \<in> set jar. banCookie d)"
    using v cookie_match by blast
  finally show ?thesis by (simp add: list_ex_iff)
qed

lemma isLocallyBanned_markLocalBan: "isLocallyBanned (markLocalBan b)"
  by (simp add: isLocallyBanned_def markLocalBan_def document_cookie_set_def
        sessionStorage_setItem_def localStorage_setItem_def)

text \<open>Every cookie the setter stores is a valid one, whatever text is assigned.\<close>

lemma trim_subset: "set (trim s) \<subseteq> set s"
proof
  fix x
  assume "x \<in> set (trim s)"
  then have "x \<in> set (dropWhile isWhiteSpace (rev (dropWhile isWhiteSpace s)))"
    by (simp add: trim_def)
  then have "x \<in> set (rev (dropWhile isWhiteSpace s))" by (rule set_dropWhileD)
  then have "x \<in> set (dropWhile isWhiteSpace s)" by simp
  then show "x \<in> set s" by (rule set_dropWhileD)
qed

lemma trim_hd: "trim s = [] \<or> \<not> isWhiteSpace (hd (trim s))"
proof -
  define t where "t = dropWhile isWhiteSpace s"
  define u where "u = rev (dropWhile isWhiteSpace (rev t))"
  define w where "w = rev (takeWhile isWhiteSpace (rev t))"
  have tu: "t = u @ w"
    unfolding u_def w_def by (metis rev_append rev_rev_ident takeWhile_dropWhile_id)
  have ht: "t = [] \<or> \<not> isWhiteSpace (hd t)"
    unfolding t_def using hd_dropWhile [of isWhiteSpace s] by blast
  have "trim s = u" by (simp add: trim_def t_def u_def)
  moreover have "u = [] \<or> \<not> isWhiteSpace (hd u)"
  proof (cases "u = []")
    case True
    then show ?thesis by simp
  next
    case False
    then have "hd t = hd u" and "t \<noteq> []" using tu by simp_all
    with ht show ?thesis by simp
  qed
  ultimately show ?thesis by simp
qed

lemma cookiePair_valid: "validCookie (cookiePair text)"
proof -
  define nv where "nv = takeWhile (\<lambda>c. c \<noteq> CHR '';'') text"
  have nv: "CHR '';'' \<notin> set nv"
    unfolding nv_def using set_takeWhileD by fastforce
  have n1: "CHR '';'' \<notin> set (takeWhile (\<lambda>c. c \<noteq> CHR ''='') nv)"
    using nv set_takeWhileD by fastforce
  have n2: "CHR ''='' \<notin> set (takeWhile (\<lambda>c. c \<noteq> CHR ''='') nv)"
    using set_takeWhileD by fastforce
  have v1: "CHR '';'' \<notin> set (drop 1 (dropWhile (\<lambda>c. c \<noteq> CHR ''='') nv))"
    using nv set_dropWhileD in_set_dropD by fastforce
  show ?thesis
  proof (cases "CHR ''='' \<in> set nv")
    case True
    then have "cookiePair text = (trim (takeWhile (\<lambda>c. c \<noteq> CHR ''='') nv),
            trim (drop 1 (dropWhile (\<lambda>c. c \<noteq> CHR ''='') nv)))"
      by (simp add: cookiePair_def nv_def [symmetric])
    then show ?thesis
      using n1 n2 v1 trim_subset trim_hd by (auto simp: validCookie_def)
  next
    case False
    then have "cookiePair text = ([], trim nv)"
      by (simp add: cookiePair_def nv_def [symmetric])
    then show ?thesis
      using nv trim_subset trim_hd by (auto simp: validCookie_def)
  qed
qed

lemma storeCookie_valid:
  "list_all validCookie jar \<Longrightarrow> validCookie c \<Longrightarrow> list_all validCookie (storeCookie c jar)"
  by (induction jar) auto

lemma document_cookie_set_valid:
  "list_all validCookie (cookieJar b) \<Longrightarrow>
   list_all validCookie (cookieJar (document_cookie_set text b))"
  by (simp add: document_cookie_set_def storeCookie_valid cookiePair_valid)

lemma example_browser_nameless_jar:
  "cookieJar example_browser_nameless = [(''lang'', ''pt''), ([], ''sp_access_blocked=true'')]"
  by (simp add: example_browser_nameless_def document_cookie_set_def cookiePair_def trim_def
        isWhiteSpace_def)

text \<open>
  Claim C1, as stated: \<^verbatim>\<open>isLocallyBanned()\<close> returns true exactly when one of the three
  stores carries \<^verbatim>\<open>'sp_access_blocked'\<close> = \<^verbatim>\<open>'true'\<close>. It fails for the cookie store:
  the check is \<^verbatim>\<open>startsWith\<close>, so a cookie \<^verbatim>\<open>sp_access_blocked=true1\<close> counts as a ban
  although no store holds the value \<^verbatim>\<open>'true'\<close>.
\<close>

theorem C1_counterexample:
  "isLocallyBanned example_browser_true1
   \<and> localStorage example_browser_true1 BANNED_KEY \<noteq> Some ''true''
   \<and> sessionStorage example_browser_true1 BANNED_KEY \<noteq> Some ''true''
   \<and> (BANNED_KEY, ''true'') \<notin> set (cookieJar example_browser_true1)"
  by (simp add: isLocallyBanned_def example_browser_true1_def document_cookie_def cookieText_def
       BANNED_KEY_def trim_def startsWith_def isWhiteSpace_def)

text \<open>
  Claim C1, amended. For every initial state of the three stores, after
  \<^verbatim>\<open>markLocalBan()\<close> runs \<^verbatim>\<open>isLocallyBanned()\<close> returns true. In every state,
  \<^verbatim>\<open>isLocallyBanned()\<close> returns true exactly when \<^verbatim>\<open>localStorage\<close> or \<^verbatim>\<open>sessionStorage\<close>
  holds \<^verbatim>\<open>'true'\<close> under \<^verbatim>\<open>'sp_access_blocked'\<close>, or one of the pieces of
  \<^verbatim>\<open>document.cookie\<close> between semicolons, trimmed, starts with
  \<^verbatim>\<open>sp_access_blocked=true\<close>. When every cookie of the store is a valid one (no
  semicolon in its name or value, no equals sign in its name, no white space at the
  start of either), the last case is: there is a cookie named \<^verbatim>\<open>sp_access_blocked\<close>
  whose value starts with \<^verbatim>\<open>true\<close>, or a cookie without a name whose value starts with
  \<^verbatim>\<open>sp_access_blocked=true\<close>. The cookies stay valid whatever text is assigned to
  \<^verbatim>\<open>document.cookie\<close>.
\<close>

theorem C1_local_ban_marker:
  "isLocallyBanned (markLocalBan b)
   \<and> (isLocallyBanned b \<longleftrightarrow>
        localStorage b BANNED_KEY = Some ''true''
        \<or> sessionStorage b BANNED_KEY = Some ''true''
        \<or> list_ex (\<lambda>cookie. startsWith (trim cookie) (BANNED_KEY @ ''=true''))
             (split CHR '';'' (document_cookie b)))
   \<and> (list_all validCookie (cookieJar b) \<longrightarrow>
        (isLocallyBanned b \<longleftrightarrow>
           localStorage b BANNED_KEY = Some ''true''
           \<or> sessionStorage b BANNED_KEY = Some ''true''
           \<or> list_ex banCookie (cookieJar b)))
   \<and> (list_all validCookie (cookieJar b) \<longrightarrow>
        list_all validCookie (cookieJar (document_cookie_set text b))
        \<and> list_all validCookie (cookieJar (markLocalBan b)))"
proof (intro conjI impI)
  show "isLocallyBanned (markLocalBan b)" by (rule isLocallyBanned_markLocalBan)
  show "isLocallyBanned b \<longleftrightarrow>
        localStorage b BANNED_KEY = Some ''true''
        \<or> sessionStorage b BANNED_KEY = Some ''true''
        \<or> list_ex (\<lambda>cookie. startsWith (trim cookie) (BANNED_KEY @ ''=true''))
             (split CHR '';'' (document_cookie b))"
    by (simp add: isLocallyBanned_def)
next
  assume "list_all validCookie (cookieJar b)"
  then show "isLocallyBanned b \<longleftrightarrow>
           localStorage b BANNED_KEY = Some ''true''
           \<or> sessionStorage b BANNED_KEY = Some ''true''
           \<or> list_ex banCookie (cookieJar b)"
    using cookie_check [of "cookieJar b"] by (simp add: isLocallyBanned_def document_cookie_def)
next
  assume "list_all validCookie (cookieJar b)"
  then show "list_all validCookie (cookieJar (document_cookie_set text b))"
    by (rule document_cookie_set_valid)
next
  assume "list_all validCookie (cookieJar b)"
  then show "list_all validCookie (cookieJar (markLocalBan b))"
    unfolding markLocalBan_def
    by (intro document_cookie_set_valid)
       (simp add: sessionStorage_setItem_def localStorage_setItem_def)
qed

theorem C1_local_ban_witness:
  "isLocallyBanned (markLocalBan example_browser)
   \<and> list_all validCookie (cookieJar example_browser)
   \<and> localStorage example_browser BANNED_KEY = None
   \<and> sessionStorage example_browser BANNED_KEY = None
   \<and> list_ex banCookie (cookieJar example_browser)
   \<and> isLocallyBanned example_browser
   \<and> list_all validCookie (cookieJar (markLocalBan example_browser))
   \<and> list_all validCookie (cookieJar example_browser_nameless)
   \<and> list_ex banCookie (cookieJar example_browser_nameless)
   \<and> isLocallyBanned example_browser_nameless"
proof -
  have v: "list_all validCookie (cookieJar example_browser)"
    by (simp add: example_browser_def validCookie_def isWhiteSpace_def)
  have e: "list_ex banCookie (cookieJar example_browser)"
    by (simp add: example_browser_def banCookie_def BANNED_KEY_def startsWith_def)
  have w: "list_all validCookie (cookieJar example_browser_nameless)"
    unfolding example_browser_nameless_jar by (simp add: validCookie_def isWhiteSpace_def)
  have n: "list_ex banCookie (cookieJar example_browser_nameless)"
    unfolding example_browser_nameless_jar
    by (simp add: banCookie_def BANNED_KEY_def startsWith_def)
  have l: "localStorage example_browser BANNED_KEY = None"
    "sessionStorage example_browser BANNED_KEY = None"
    by (simp_all add: example_browser_def)
  from C1_local_ban_marker [of example_browser] v e
  have 1: "isLocallyBanned (markLocalBan example_browser)" "isLocallyBanned example_browser"
    "list_all validCookie (cookieJar (markLocalBan example_browser))"
    by blast+
  from C1_local_ban_marker [of example_browser_nameless] w n
  have 2: "isLocallyBanned example_browser_nameless"
    by blast
  from 1 2 v e w n l show ?thesis by blast
qed

section \<open>Properties of checkIfBanned\<close>





lemma usable_cases:
  obtains (fail) "usable answer = None"
      "answer = Rejects \<or> (\<exists>body. answer = Responds False body) \<or> answer = Responds True None
        \<or> answer = Responds True (Some JsonNull)"
  | (ok) v where "usable answer = Some v" "answer = Responds True (Some (JsonValue v))"
proof (cases answer)
  case Rejects
  then show ?thesis using fail by (simp add: usable_def)
next
  case (Responds ok body)
  show ?thesis
  proof (cases ok)
    case False
    with Responds show ?thesis using fail by (simp add: usable_def)
  next
    case True
    show ?thesis
    proof (cases body)
      case None
      with True Responds show ?thesis using fail by (simp add: usable_def)
    next
      case (Some j)
      with True Responds show ?thesis using fail ok by (cases j) (simp_all add: usable_def)
    qed
  qed
qed

































section \<open>Properties of the device identifier\<close>

lemma digitChar_inj: "a < 36 \<Longrightarrow> b < 36 \<Longrightarrow> digitChar a = digitChar b \<Longrightarrow> a = b"
  unfolding digitChar_def
  by (subst (asm) nth_eq_iff_index_eq) simp_all

lemma digitChar_not_minus: "a < 36 \<Longrightarrow> digitChar a \<noteq> CHR ''-''"
proof -
  have "CHR ''-'' \<notin> set ''0123456789abcdefghijklmnopqrstuvwxyz''" by simp
  moreover assume "a < 36"
  then have "digitChar a \<in> set ''0123456789abcdefghijklmnopqrstuvwxyz''"
    unfolding digitChar_def by (intro nth_mem) simp
  ultimately show ?thesis by metis
qed

lemma toDigits_nonempty: "toDigits r n \<noteq> []"
  by (subst toDigits.simps) simp

lemma toDigits_small: "n < r \<Longrightarrow> toDigits r n = [digitChar n]"
  by (subst toDigits.simps) simp

lemma toDigits_large:
  "2 \<le> r \<Longrightarrow> \<not> n < r \<Longrightarrow> toDigits r n = toDigits r (n div r) @ [digitChar (n mod r)]"
  by (subst toDigits.simps) simp

lemma toDigits_inj:
  assumes r: "2 \<le> r" "r \<le> 36"
  shows "toDigits r n = toDigits r m \<Longrightarrow> n = m"
proof (induction n arbitrary: m rule: less_induct)
  case (less n)
  have lt: "k mod r < 36" for k
  proof -
    have "0 < r" using r by simp
    then have "k mod r < r" by (rule mod_less_divisor)
    with r show ?thesis by linarith
  qed
  show ?case
  proof (cases "n < r")
    case True
    show ?thesis
    proof (cases "m < r")
      case m: True
      from less.prems True m have "digitChar n = digitChar m" by (simp add: toDigits_small)
      moreover have "n < 36" "m < 36" using True m r by simp_all
      ultimately show ?thesis by (rule digitChar_inj [rotated 2])
    next
      case False
      from less.prems True False r show ?thesis
        by (simp add: toDigits_small toDigits_large toDigits_nonempty [symmetric])
    qed
  next
    case False
    show ?thesis
    proof (cases "m < r")
      case True
      from less.prems True False r have "toDigits r (n div r) @ [digitChar (n mod r)] = [digitChar m]"
        by (simp add: toDigits_small toDigits_large)
      then show ?thesis by (simp add: toDigits_nonempty)
    next
      case m: False
      from less.prems m False r
      have e: "toDigits r (n div r) = toDigits r (m div r)"
        and d: "digitChar (n mod r) = digitChar (m mod r)"
        by (simp_all add: toDigits_large)
      have "n div r < n" using False r by (intro div_less_dividend) auto
      with e have q: "n div r = m div r" using less.IH by blast
      have md: "n mod r = m mod r" by (rule digitChar_inj [OF lt lt d])
      have "n = r * (n div r) + n mod r" by simp
      also have "\<dots> = r * (m div r) + m mod r" using q md by simp
      finally show ?thesis by simp
    qed
  qed
qed

lemma toDigits_hd: "2 \<le> r \<Longrightarrow> r \<le> 36 \<Longrightarrow> hd (toDigits r n) \<noteq> CHR ''-''"
proof (induction n rule: less_induct)
  case (less n)
  show ?case
  proof (cases "n < r")
    case True
    then have "n < 36" using less.prems by simp
    then show ?thesis using True digitChar_not_minus by (simp add: toDigits_small)
  next
    case False
    have "n div r < n" using False less.prems by (intro div_less_dividend) auto
    then have "hd (toDigits r (n div r)) \<noteq> CHR ''-''" using less by blast
    then show ?thesis using False less.prems
      by (simp add: toDigits_large hd_append toDigits_nonempty)
  qed
qed

lemma toStringRadix_inj:
  assumes r: "2 \<le> r" "r \<le> 36" and e: "toStringRadix r i = toStringRadix r j"
  shows "i = j"
proof -
  have neg: "False" if "toDigits r a = CHR ''-'' # toDigits r b" for a b
    using toDigits_hd [OF r, of a] that by simp
  show ?thesis
  proof (cases "i < 0")
    case True
    show ?thesis
    proof (cases "j < 0")
      case True
      with \<open>i < 0\<close> e have "nat (- i) = nat (- j)"
        using toDigits_inj [OF r] by (simp add: toStringRadix_def)
      with True \<open>i < 0\<close> show ?thesis by simp
    next
      case False
      with \<open>i < 0\<close> e show ?thesis using neg [of "nat j" "nat (- i)"] by (simp add: toStringRadix_def)
    qed
  next
    case False
    show ?thesis
    proof (cases "j < 0")
      case True
      with False e show ?thesis using neg [of "nat i" "nat (- j)"] by (simp add: toStringRadix_def)
    next
      case nj: False
      with False e have "nat i = nat j"
        using toDigits_inj [OF r] by (simp add: toStringRadix_def)
      with False nj show ?thesis by simp
    qed
  qed
qed

lemma example_device_string:
  "join ''|||'' (components example_device) = ''M|||pt|||180|||24|||360x640|||8''"
  by (simp add: example_device_def components_def toStringRadix_def toDigits.simps digitChar_def)

lemma example_device_hash:
  "hashLoop 0 ''M|||pt|||180|||24|||360x640|||8'' = 976268261"
  by simp

lemma example_device_hex: "toStringRadix 16 \<bar>sint (976268261 :: 32 word)\<bar> = ''3a30abe5''"
  by (simp add: toStringRadix_def toDigits.simps digitChar_def)

lemma example_device_id:
  "generateDeviceId example_device now = ''dev_3a30abe5_'' @ toStringRadix 36 now"
  unfolding generateDeviceId_def example_device_string example_device_hash example_device_hex
  by simp

text \<open>
  Claim C3, as stated: for a fixed tuple of device attributes any two calls of
  \<^verbatim>\<open>generateDeviceId()\<close> return the same identifier. It fails: the identifier ends
  with \<^verbatim>\<open>Date.now().toString(36)\<close>, so the same device called at the times 0 and 1
  gets two different identifiers.
\<close>

theorem C3_counterexample:
  "generateDeviceId example_device 0 = ''dev_3a30abe5_0''
   \<and> generateDeviceId example_device 1 = ''dev_3a30abe5_1''
   \<and> generateDeviceId example_device 0 \<noteq> generateDeviceId example_device 1"
  by (simp add: example_device_id toStringRadix_def toDigits.simps digitChar_def)

text \<open>
  Claim C3, amended: for a fixed tuple of device attributes the identifier is
  \<^verbatim>\<open>'dev_'\<close>, a hash that is the same at every call, \<^verbatim>\<open>'_'\<close> and the time of the
  call in base 36; two calls return the same identifier exactly when \<^verbatim>\<open>Date.now()\<close>
  has the same value at both.
\<close>

theorem C3_device_id_fixed_hash_and_call_time:
  "(generateDeviceId d now1 = generateDeviceId d now2 \<longleftrightarrow> now1 = now2)
   \<and> (\<exists>h. \<forall>now. generateDeviceId d now = ''dev_'' @ h @ ''_'' @ toStringRadix 36 now)"
proof
  show "generateDeviceId d now1 = generateDeviceId d now2 \<longleftrightarrow> now1 = now2"
    using toStringRadix_inj [of 36 now1 now2] by (auto simp: generateDeviceId_def)
  show "\<exists>h. \<forall>now. generateDeviceId d now = ''dev_'' @ h @ ''_'' @ toStringRadix 36 now"
    by (auto simp: generateDeviceId_def)
qed

theorem C3_device_id_witness:
  "(generateDeviceId example_device 7 = generateDeviceId example_device 7)
   \<and> generateDeviceId example_device 0 \<noteq> generateDeviceId example_device 1"
  using C3_device_id_fixed_hash_and_call_time [of example_device 0 1]
  by simp

section \<open>Properties of reportDesktopAccess\<close>

text \<open>
  Claim C4. Whatever the outcome of the POST to \<^verbatim>\<open>/api/admin/report-desktop-access\<close>
  (it resolves, or it throws any exception), \<^verbatim>\<open>reportDesktopAccess()\<close> completes without
  throwing, and when it completes both \<^verbatim>\<open>localStorage\<close> and \<^verbatim>\<open>sessionStorage\<close> hold
  \<^verbatim>\<open>'true'\<close> under \<^verbatim>\<open>'sp_access_blocked'\<close>.
\<close>

theorem C4_reportDesktopAccess_bans_locally:
  "\<exists>b'. reportDesktopAccess srv d now b = (Inr (), b')
        \<and> localStorage b' BANNED_KEY = Some ''true''
        \<and> sessionStorage b' BANNED_KEY = Some ''true''"
  by (cases "admin_report_desktop_access srv")
     (simp_all add: reportDesktopAccess_def try_catch_def bind_def modify_def apiRequest_def
        ret_def throw_def localStorage_setItem_def sessionStorage_setItem_def
        document_cookie_set_def Let_def)

theorem C4_reportDesktopAccess_witness:
  "admin_report_desktop_access
       (example_server\<lparr>admin_report_desktop_access := Some NetworkError\<rparr>) = Some NetworkError
   \<and> (\<exists>b'. reportDesktopAccess
              (example_server\<lparr>admin_report_desktop_access := Some NetworkError\<rparr>)
              example_device 0 example_browser_clean = (Inr (), b')
         \<and> localStorage b' BANNED_KEY = Some ''true''
         \<and> sessionStorage b' BANNED_KEY = Some ''true'')"
  using C4_reportDesktopAccess_bans_locally
          [of "example_server\<lparr>admin_report_desktop_access := Some NetworkError\<rparr>"
              example_device 0 example_browser_clean]
  by simp

section \<open>Properties of validatePostalCodeFormat\<close>

lemma patterns_simps:
  "patterns ''CL'' = Some [(isDigit, 7, 7)]"
  "patterns ''BR'' = Some [(isDigit, 5, 5), (isHyphen, 0, 1), (isDigit, 3, 3)]"
  by (simp_all add: patterns_def)

lemma patterns_None:
  "k \<notin> {''CL'', ''AR'', ''MX'', ''ES'', ''BR''} \<Longrightarrow> patterns k = None"
  by (simp add: patterns_def)

lemma test_exact: "test [(cls, n, n)] s \<longleftrightarrow> length s = n \<and> list_all cls s"
  by (auto simp: list_ex_iff)

lemma list_all_take_drop: "list_all P s \<longleftrightarrow> list_all P (take n s) \<and> list_all P (drop n s)"
  by (metis append_take_drop_id list_all_append)

lemma test_BR:
  "test [(isDigit, 5, 5), (isHyphen, 0, 1), (isDigit, 3, 3)] s \<longleftrightarrow>
     (length s = 8 \<and> list_all isDigit s)
     \<or> (length s = 9 \<and> list_all isDigit (take 5 s) \<and> s ! 5 = CHR ''-''
        \<and> list_all isDigit (drop 6 s))"
proof -
  have opt: "[0..<Suc 1] = [0, 1]" by (simp add: upt_rec)
  have one: "[5..<Suc 5] = [5]" by simp
  have "test [(isDigit, 5, 5), (isHyphen, 0, 1), (isDigit, 3, 3)] s \<longleftrightarrow>
        5 \<le> length s \<and> list_all isDigit (take 5 s) \<and>
        (test [(isDigit, 3, 3)] (drop 5 s)
         \<or> (1 \<le> length (drop 5 s) \<and> list_all isHyphen (take 1 (drop 5 s))
             \<and> test [(isDigit, 3, 3)] (drop 1 (drop 5 s))))"
    unfolding test.simps(2) [of isDigit 5 5] one test.simps(2) [of isHyphen 0 1] opt
    by simp
  also have "\<dots> \<longleftrightarrow> (length s = 8 \<and> list_all isDigit s)
     \<or> (length s = 9 \<and> list_all isDigit (take 5 s) \<and> s ! 5 = CHR ''-''
        \<and> list_all isDigit (drop 6 s))"
  proof -
    have a: "5 \<le> length s \<and> list_all isDigit (take 5 s) \<and> test [(isDigit, 3, 3)] (drop 5 s)
          \<longleftrightarrow> length s = 8 \<and> list_all isDigit s"
      unfolding test_exact using list_all_take_drop [of isDigit s 5] by auto
    have h: "list_all isHyphen (take 1 (drop 5 s)) \<longleftrightarrow> s ! 5 = CHR ''-''" if "6 \<le> length s"
    proof -
      have "5 < length s" using that by simp
      then have "drop 5 s = s ! 5 # drop (Suc 5) s" by (rule Cons_nth_drop_Suc [symmetric])
      then have "take 1 (drop 5 s) = [s ! 5]" by simp
      then show ?thesis by (simp add: isHyphen_def)
    qed
    have b: "5 \<le> length s \<and> list_all isDigit (take 5 s) \<and> 1 \<le> length (drop 5 s)
             \<and> list_all isHyphen (take 1 (drop 5 s)) \<and> test [(isDigit, 3, 3)] (drop 1 (drop 5 s))
          \<longleftrightarrow> length s = 9 \<and> list_all isDigit (take 5 s) \<and> s ! 5 = CHR ''-''
        \<and> list_all isDigit (drop 6 s)"
      unfolding test_exact using h by auto
    from a b show ?thesis by blast
  qed
  finally show ?thesis .
qed


lemma toUpperCase_examples: "toUpperCase ''br'' = ''BR''" "toUpperCase ''cl'' = ''CL''" "toUpperCase ''us'' = ''US''"
  by (simp_all add: toUpperCase_def toUpperChar_def)

text \<open>
  Claim C7. \<^verbatim>\<open>validatePostalCodeFormat(code, country)\<close> accepts a Brazilian CEP exactly
  when, after removing white space, it is five digits, optionally a hyphen, and three
  digits (so eight digits, or five digits, a hyphen and three digits); a Chilean code
  exactly when, after removing white space, it is seven digits; and for every country
  whose upper-case form is not a key of the pattern table it returns true for every
  code. The country is matched in upper case, so the first two parts hold for every
  spelling of \<^verbatim>\<open>BR\<close> and \<^verbatim>\<open>CL\<close>.
\<close>

theorem C7_validatePostalCodeFormat:
  "(toUpperCase country_in = ''BR'' \<longrightarrow>
      (validatePostalCodeFormat code country_in \<longleftrightarrow>
        (let s = filter (\<lambda>c. \<not> isWhiteSpace c) code in
           (length s = 8 \<and> list_all isDigit s)
           \<or> (length s = 9 \<and> list_all isDigit (take 5 s) \<and> s ! 5 = CHR ''-''
              \<and> list_all isDigit (drop 6 s)))))
   \<and> (toUpperCase country_in = ''CL'' \<longrightarrow>
      (validatePostalCodeFormat code country_in \<longleftrightarrow>
        (let s = filter (\<lambda>c. \<not> isWhiteSpace c) code in
           length s = 7 \<and> list_all isDigit s)))
   \<and> (toUpperCase country_in \<notin> {''CL'', ''AR'', ''MX'', ''ES'', ''BR''} \<longrightarrow>
      validatePostalCodeFormat code country_in)"
proof (intro conjI impI)
  assume "toUpperCase country_in = ''BR''"
  then have "validatePostalCodeFormat code country_in
             = test [(isDigit, 5, 5), (isHyphen, 0, 1), (isDigit, 3, 3)]
                 (filter (\<lambda>c. \<not> isWhiteSpace c) code)"
    unfolding validatePostalCodeFormat_def by (simp only: patterns_simps option.case)
  then show "validatePostalCodeFormat code country_in \<longleftrightarrow>
        (let s = filter (\<lambda>c. \<not> isWhiteSpace c) code in
           (length s = 8 \<and> list_all isDigit s)
           \<or> (length s = 9 \<and> list_all isDigit (take 5 s) \<and> s ! 5 = CHR ''-''
              \<and> list_all isDigit (drop 6 s)))"
    unfolding Let_def test_BR .
next
  assume "toUpperCase country_in = ''CL''"
  then have "validatePostalCodeFormat code country_in
             = test [(isDigit, 7, 7)] (filter (\<lambda>c. \<not> isWhiteSpace c) code)"
    unfolding validatePostalCodeFormat_def by (simp only: patterns_simps option.case)
  then show "validatePostalCodeFormat code country_in \<longleftrightarrow>
        (let s = filter (\<lambda>c. \<not> isWhiteSpace c) code in
           length s = 7 \<and> list_all isDigit s)"
    unfolding Let_def test_exact .
next
  assume "toUpperCase country_in \<notin> {''CL'', ''AR'', ''MX'', ''ES'', ''BR''}"
  then have "patterns (toUpperCase country_in) = None" by (rule patterns_None)
  then show "validatePostalCodeFormat code country_in"
    by (simp add: validatePostalCodeFormat_def)
qed

theorem C7_validatePostalCodeFormat_witness:
  "toUpperCase ''br'' = ''BR''
   \<and> validatePostalCodeFormat ''01310-100'' ''br''
   \<and> validatePostalCodeFormat ''01 310 100'' ''br''
   \<and> \<not> validatePostalCodeFormat ''12345'' ''br''
   \<and> toUpperCase ''cl'' = ''CL''
   \<and> validatePostalCodeFormat ''750 0000'' ''cl''
   \<and> \<not> validatePostalCodeFormat ''75000'' ''cl''
   \<and> toUpperCase ''us'' \<notin> {''CL'', ''AR'', ''MX'', ''ES'', ''BR''}
   \<and> validatePostalCodeFormat ''anything'' ''us''"
  using C7_validatePostalCodeFormat [of "''br''" "''01310-100''"]
        C7_validatePostalCodeFormat [of "''br''" "''01 310 100''"]
        C7_validatePostalCodeFormat [of "''br''" "''12345''"]
        C7_validatePostalCodeFormat [of "''cl''" "''750 0000''"]
        C7_validatePostalCodeFormat [of "''cl''" "''75000''"]
        C7_validatePostalCodeFormat [of "''us''" "''anything''"]
  by (simp add: toUpperCase_examples isWhiteSpace_def isDigit_def)

section \<open>Properties of validatePostalCodeWithZipcodebase\<close>

text \<open>
  Claim C8, as stated: a valid answer carries the country taken from the first API
  result. It fails when the first result has no \<^verbatim>\<open>country_code\<close>: the country returned
  is the one passed in (here \<^verbatim>\<open>XX\<close>), and the region is the \<^verbatim>\<open>province\<close> because the
  result has no \<^verbatim>\<open>state\<close>.
\<close>

theorem C8_counterexample:
  "item_country_code example_item = None
   \<and> validatePostalCodeWithZipcodebase example_search_answer ''01310100'' ''XX''
       = Inr \<lparr>isValid = True, country = ''XX'', region = Some ''SP'',
              city_of_result = Some ''Sao Paulo'', error = None\<rparr>"
  by (simp add: validatePostalCodeWithZipcodebase_def validatePostalCode_try_def
        example_search_answer_def example_item_def truthy_def or_js_def)

text \<open>
  Claim C8, amended. \<^verbatim>\<open>validatePostalCodeWithZipcodebase(code, country)\<close> never throws.
  It returns \<^verbatim>\<open>isValid: true\<close> exactly when the response is OK, its body parses and
  \<^verbatim>\<open>results\<close> holds a non-empty array for the queried code; the answer then carries the
  \<^verbatim>\<open>country_code\<close> of the first result, or the input country when the result has none,
  its \<^verbatim>\<open>state\<close>, or else its \<^verbatim>\<open>province\<close>, as the region, and its \<^verbatim>\<open>city\<close>. On an empty
  result, a response that is not OK, a body that does not parse or a network error it
  returns \<^verbatim>\<open>isValid: false\<close> with the input country and an error message.
\<close>

theorem C8_validatePostalCodeWithZipcodebase:
  "\<exists>r. validatePostalCodeWithZipcodebase answer code country_in = Inr r
      \<and> (isValid r \<longleftrightarrow>
           (\<exists>data results first others.
              usable answer = Some data \<and> search_results data = Some results
              \<and> results code = Some (first # others)))
      \<and> (\<forall>data results first others.
            usable answer = Some data \<and> search_results data = Some results
            \<and> results code = Some (first # others) \<longrightarrow>
            r = \<lparr>isValid = True,
                 country = (if truthy (item_country_code first)
                            then the (item_country_code first) else country_in),
                 region = or_js (item_state first) (item_province first),
                 city_of_result = item_city first, error = None\<rparr>)
      \<and> (\<not> isValid r \<longrightarrow>
            country r = country_in \<and> region r = None \<and> city_of_result r = None
            \<and> error r \<noteq> None)"
proof (cases answer rule: usable_cases)
  case fail
  then show ?thesis
    by (auto simp: validatePostalCodeWithZipcodebase_def validatePostalCode_try_def)
next
  case (ok v)
  then show ?thesis
    by (auto simp: validatePostalCodeWithZipcodebase_def validatePostalCode_try_def
          split: option.splits list.splits)
qed


theorem C8_validatePostalCodeWithZipcodebase_witness:
  "usable example_search_answer_full \<noteq> None
   \<and> (\<exists>r. validatePostalCodeWithZipcodebase example_search_answer_full ''01310100'' ''CL''
            = Inr r
          \<and> isValid r \<and> country r = ''BR'' \<and> region r = Some ''Sao Paulo''
          \<and> city_of_result r = Some ''Sao Paulo'')
   \<and> (\<exists>r. validatePostalCodeWithZipcodebase Rejects ''01310100'' ''CL'' = Inr r
          \<and> \<not> isValid r \<and> country r = ''CL'' \<and> error r \<noteq> None)"
proof -
  have u: "usable example_search_answer_full
           = Some \<lparr>search_results = Some [''01310100'' \<mapsto>
               [example_item\<lparr>item_country_code := Some ''BR'', item_state := Some ''Sao Paulo''\<rparr>]]\<rparr>"
    by (simp add: usable_def example_search_answer_full_def)
  have n: "usable (Rejects :: search_data json reply) = None"
    by (simp add: usable_def)
  from C8_validatePostalCodeWithZipcodebase [of example_search_answer_full "''01310100''" "''CL''"]
  have 1: "\<exists>r. validatePostalCodeWithZipcodebase example_search_answer_full ''01310100'' ''CL''
            = Inr r
          \<and> isValid r \<and> country r = ''BR'' \<and> region r = Some ''Sao Paulo''
          \<and> city_of_result r = Some ''Sao Paulo''"
    unfolding u by (auto simp: example_item_def truthy_def or_js_def)
  from C8_validatePostalCodeWithZipcodebase [of Rejects "''01310100''" "''CL''"]
  have 2: "\<exists>r. validatePostalCodeWithZipcodebase Rejects ''01310100'' ''CL'' = Inr r
          \<and> \<not> isValid r \<and> country r = ''CL'' \<and> error r \<noteq> None"
    unfolding n by auto
  from u 1 2 show ?thesis by simp
qed

section \<open>Properties of getNearbyMunicipalities\<close>

lemma findIndex_ge: "- 1 \<le> findIndex P xs"
  by (induction xs) (auto simp: Let_def)

lemma findIndex_iff:
  "i < length xs \<Longrightarrow> int i = findIndex P xs \<longleftrightarrow> P (xs ! i) \<and> (\<forall>j<i. \<not> P (xs ! j))"
proof (induction xs arbitrary: i)
  case Nil
  then show ?case by simp
next
  case (Cons x xs)
  show ?case
  proof (cases "P x")
    case True
    then show ?thesis by (cases i) auto
  next
    case False
    show ?thesis
    proof (cases i)
      case 0
      with False show ?thesis using findIndex_ge [of P xs] by (auto simp: Let_def)
    next
      case (Suc k)
      with Cons.prems have k: "k < length xs" by simp
      have "int (Suc k) = findIndex P (x # xs) \<longleftrightarrow> int k = findIndex P xs"
        using False findIndex_ge [of P xs] by (auto simp: Let_def)
      also have "\<dots> \<longleftrightarrow> P (xs ! k) \<and> (\<forall>j<k. \<not> P (xs ! j))" by (rule Cons.IH [OF k])
      also have "\<dots> \<longleftrightarrow> P ((x # xs) ! Suc k) \<and> (\<forall>j<Suc k. \<not> P ((x # xs) ! j))"
        using False by (auto simp: less_Suc_eq_0_disj)
      finally show ?thesis using Suc by simp
    qed
  qed
qed

lemma unique_eq:
  "uniqueMunicipalities ms = map (nth ms) (filter (firstAt ms) [0..<length ms])"
proof -
  have e: "enumerate 0 ms = map (\<lambda>i. (i, ms ! i)) [0..<length ms]"
    by (rule nth_equalityI) (simp_all add: nth_enumerate_eq)
  have "filter (\<lambda>(index, municipality). int index = findIndex (\<lambda>m. city m = city municipality) ms)
          (map (\<lambda>i. (i, ms ! i)) [0..<length ms])
        = map (\<lambda>i. (i, ms ! i)) (filter (firstAt ms) [0..<length ms])"
    unfolding filter_map
    by (rule arg_cong [where f = "map _"], rule filter_cong)
       (auto simp: findIndex_iff firstAt_def)
  then show ?thesis
    unfolding uniqueMunicipalities_def e by (simp add: comp_def)
qed

lemma unique_distinct: "distinct (map city (uniqueMunicipalities ms))"
proof -
  have "inj_on (\<lambda>i. city (ms ! i)) (set (filter (firstAt ms) [0..<length ms]))"
  proof (rule inj_onI)
    fix i j
    assume i: "i \<in> set (filter (firstAt ms) [0..<length ms])"
      and j: "j \<in> set (filter (firstAt ms) [0..<length ms])"
      and e: "city (ms ! i) = city (ms ! j)"
    show "i = j"
    proof (rule ccontr)
      assume "i \<noteq> j"
      then consider "i < j" | "j < i" by linarith
      then show False using i j e by cases (auto simp: firstAt_def)
    qed
  qed
  then show ?thesis
    unfolding unique_eq by (simp add: distinct_map comp_def)
qed

lemma unique_find:
  "find (\<lambda>m. city m = c) (uniqueMunicipalities ms) = find (\<lambda>m. city m = c) ms"
proof (cases "find (\<lambda>m. city m = c) ms")
  case None
  then have "\<forall>m \<in> set ms. city m \<noteq> c" by (simp add: find_None_iff)
  moreover have "set (uniqueMunicipalities ms) \<subseteq> set ms" unfolding unique_eq by auto
  ultimately have "find (\<lambda>m. city m = c) (uniqueMunicipalities ms) = None"
    by (auto simp: find_None_iff)
  with None show ?thesis by simp
next
  case (Some m)
  then obtain i where i: "i < length ms" "city (ms ! i) = c" "m = ms ! i"
    "\<forall>j<i. city (ms ! j) \<noteq> c" by (auto simp: find_Some_iff)
  define idx where "idx = filter (firstAt ms) [0..<length ms]"
  have mem: "i \<in> set idx" using i by (auto simp: idx_def firstAt_def)
  have "find (\<lambda>m. city m = c) (map (nth ms) idx) = Some (ms ! i)"
  proof -
    have s: "sorted idx" "distinct idx" by (simp_all add: idx_def sorted_wrt_filter)
    from mem obtain k where k: "k < length idx" "idx ! k = i" by (auto simp: in_set_conv_nth)
    have "\<forall>l<k. city (map (nth ms) idx ! l) \<noteq> c"
    proof (intro allI impI)
      fix l assume l: "l < k"
      then have "idx ! l < idx ! k"
        using s k by (metis distinct_conv_nth le_neq_implies_less less_imp_le_nat less_trans
            nat_neq_iff sorted_nth_mono)
      with i k l show "city (map (nth ms) idx ! l) \<noteq> c" by simp
    qed
    with k i show ?thesis by (auto simp: find_Some_iff intro!: exI [of _ k])
  qed
  with Some i show ?thesis by (simp add: unique_eq idx_def)
qed


lemma set_insertBy: "set (insertBy cmp x ys) = insert x (set ys)"
  by (induction ys) auto

lemma set_sortBy_acc: "set (foldl (\<lambda>sorted x. insertBy cmp x sorted) acc xs) = set acc \<union> set xs"
  by (induction xs arbitrary: acc) (auto simp: set_insertBy)

lemma set_sortBy: "set (sortBy cmp xs) = set xs"
  by (simp add: sortBy_def set_sortBy_acc)

lemma distinct_insertBy:
  "distinct (map f (insertBy cmp x ys)) \<longleftrightarrow> f x \<notin> f ` set ys \<and> distinct (map f ys)"
  by (induction ys) (auto simp: set_insertBy)

lemma distinct_sortBy_acc:
  "distinct (map f (acc @ xs)) \<Longrightarrow> distinct (map f (foldl (\<lambda>sorted x. insertBy cmp x sorted) acc xs))"
proof (induction xs arbitrary: acc)
  case Nil
  then show ?case by simp
next
  case (Cons x xs)
  have "distinct (map f (insertBy cmp x acc @ xs))"
    using Cons.prems by (auto simp: distinct_insertBy set_insertBy)
  then show ?case using Cons.IH by simp
qed

lemma distinct_sortBy: "distinct (map f xs) \<Longrightarrow> distinct (map f (sortBy cmp xs))"
  using distinct_sortBy_acc [of f "[]" xs cmp] by (simp add: sortBy_def)

lemma sorted_insertBy:
  "sorted (map key ys) \<Longrightarrow> sorted (map key (insertBy (\<lambda>a b. key a - key b) x ys))"
  for key :: "'a \<Rightarrow> real"
proof (induction ys)
  case Nil
  then show ?case by simp
next
  case (Cons y ys)
  then show ?case by (auto simp: set_insertBy)
qed

lemma sorted_sortBy_acc:
  "sorted (map key acc) \<Longrightarrow>
   sorted (map key (foldl (\<lambda>placed x. insertBy (\<lambda>a b. key a - key b) x placed) acc xs))"
  for key :: "'a \<Rightarrow> real"
proof (induction xs arbitrary: acc)
  case Nil
  then show ?case by simp
next
  case (Cons x xs)
  from Cons.prems have "sorted (map key (insertBy (\<lambda>a b. key a - key b) x acc))"
    by (rule sorted_insertBy)
  then show ?case using Cons.IH by simp
qed

lemma sorted_sortBy: "sorted (map key (sortBy (\<lambda>a b. key a - key b) xs))"
  for key :: "'a \<Rightarrow> real"
  using sorted_sortBy_acc [of key "[]" xs] by (simp add: sortBy_def)

lemma insertBy_cong:
  "\<forall>y \<in> set ys. cmp y x = cmp' y x \<Longrightarrow> insertBy cmp x ys = insertBy cmp' x ys"
  by (induction ys) auto

lemma sortBy_cong_acc:
  assumes "\<forall>a \<in> set acc \<union> set xs. \<forall>b \<in> set acc \<union> set xs. cmp a b = cmp' a b"
  shows "foldl (\<lambda>sorted x. insertBy cmp x sorted) acc xs
         = foldl (\<lambda>sorted x. insertBy cmp' x sorted) acc xs"
  using assms
proof (induction xs arbitrary: acc)
  case Nil
  then show ?case by simp
next
  case (Cons x xs)
  have "insertBy cmp x acc = insertBy cmp' x acc"
    using Cons.prems by (intro insertBy_cong) auto
  moreover have "\<forall>a \<in> set (insertBy cmp' x acc) \<union> set xs.
                 \<forall>b \<in> set (insertBy cmp' x acc) \<union> set xs. cmp a b = cmp' a b"
    using Cons.prems by (auto simp: set_insertBy)
  ultimately show ?case using Cons.IH by simp
qed

lemma sortBy_cong:
  "\<forall>a \<in> set xs. \<forall>b \<in> set xs. cmp a b = cmp' a b \<Longrightarrow> sortBy cmp xs = sortBy cmp' xs"
  using sortBy_cong_acc [of "[]" xs cmp cmp'] by (simp add: sortBy_def)

lemma find_distinct:
  "distinct (map f xs) \<Longrightarrow> find (\<lambda>y. f y = c) xs = Some x \<longleftrightarrow> x \<in> set xs \<and> f x = c"
  by (induction xs) auto

lemma find_same_set:
  assumes "distinct (map f xs)" "distinct (map f ys)" "set xs = set ys"
  shows "find (\<lambda>y. f y = c) xs = find (\<lambda>y. f y = c) ys"
proof (cases "find (\<lambda>y. f y = c) ys")
  case None
  then have "\<forall>y \<in> set ys. f y \<noteq> c" by (simp add: find_None_iff)
  then have "find (\<lambda>y. f y = c) xs = None" using assms(3) by (simp add: find_None_iff)
  with None show ?thesis by simp
next
  case (Some y)
  then have "y \<in> set ys \<and> f y = c" using find_distinct [OF assms(2)] by simp
  then have "find (\<lambda>y. f y = c) xs = Some y" using find_distinct [OF assms(1)] assms(3) by simp
  with Some show ?thesis by simp
qed


lemma unique_subset: "set (uniqueMunicipalities ms) \<subseteq> set ms"
  unfolding unique_eq by auto

lemma usable_Some: "usable answer = Some v \<longleftrightarrow> answer = Responds True (Some (JsonValue v))"
  by (cases answer rule: usable_cases) auto

lemma compareDistance_key: "compareDistance = (\<lambda>a b. distanceOr999 a - distanceOr999 b)"
  by (auto simp: compareDistance_def fun_eq_iff)

lemma getNearbyMunicipalities_results:
  assumes "usable answer = Some data" and "radius_results data = Some results"
  shows "getNearbyMunicipalities answer
         = Inr (sortBy compareDistance (uniqueMunicipalities (map toMunicipality results)))"
  using assms by (simp add: usable_Some getNearbyMunicipalities_def)

lemma nonzero_distance:
  assumes "hasNonZeroDistance item"
  shows "\<exists>x. x \<noteq> 0 \<and> distance (toMunicipality item) = Some (Num x)
             \<and> distance (toMunicipality_copy item) = Some (Num x)
             \<and> distanceOr999 (toMunicipality item) = x"
  using assms
  by (auto simp: hasNonZeroDistance_def toMunicipality_def toMunicipality_copy_def
        truthyDistance_def parseFloat_def distanceOr999_def
        split: distance_field.splits jsnum.splits)

lemmas example_radius_defs = getNearbyMunicipalities_def getNearbyMunicipalities_copy_def
  example_radius_item_def toMunicipality_def toMunicipality_copy_def truthy_def
  truthyDistance_def parseFloat_def or_js_def uniqueMunicipalities_def sortBy_def
  compareDistance_def compareDistance_copy_def distanceOr999_def enumerate_eq_zip

lemma example_radius_answer_result:
  "getNearbyMunicipalities example_radius_answer =
     Inr [\<lparr>city = ''Providencia'', state = Some ''RM'', postal_code = Some ''7500000'',
           distance = Some (Num 5)\<rparr>,
          \<lparr>city = ''Santiago'', state = Some ''RM'', postal_code = Some ''7500000'',
           distance = Some (Num 0)\<rparr>]"
  by (simp add: example_radius_answer_def example_radius_defs upt_rec)

lemma example_radius_answer_result_copy:
  "getNearbyMunicipalities_copy example_localeCompare example_radius_answer =
     Inr [\<lparr>city = ''Providencia'', state = Some ''RM'', postal_code = Some ''7500000'',
           distance = Some (Num 5)\<rparr>,
          \<lparr>city = ''Santiago'', state = Some ''RM'', postal_code = Some ''7500000'',
           distance = None\<rparr>]"
  by (simp add: example_radius_answer_def example_radius_defs example_localeCompare_def upt_rec)

lemma example_radius_answer_plain_result:
  "getNearbyMunicipalities example_radius_answer_plain =
     Inr [\<lparr>city = ''Santiago'', state = Some ''RM'', postal_code = Some ''7500000'',
           distance = Some (Num 2)\<rparr>,
          \<lparr>city = ''Providencia'', state = Some ''RM'', postal_code = Some ''7500000'',
           distance = Some (Num 5)\<rparr>]"
  by (simp add: example_radius_answer_plain_def example_radius_defs upt_rec)

lemma example_radius_answer_plain_usable:
  "usable example_radius_answer_plain = Some \<lparr>radius_results = Some
       [example_radius_item ''Providencia'' (DistanceNumber 5),
        example_radius_item ''Santiago'' (DistanceNumber 2),
        example_radius_item ''Providencia'' (DistanceNumber 1)]\<rparr>"
  by (simp add: usable_def example_radius_answer_plain_def)

lemma example_radius_items_plain:
  "list_all plainItem
       [example_radius_item ''Providencia'' (DistanceNumber 5),
        example_radius_item ''Santiago'' (DistanceNumber 2),
        example_radius_item ''Providencia'' (DistanceNumber 1)]"
  by (simp add: plainItem_def hasNonZeroDistance_def example_radius_item_def truthy_def)

text \<open>
  Claim C9, as stated: the list returned by \<^verbatim>\<open>getNearbyMunicipalities\<close> is sorted by
  distance in non-decreasing order. It fails: the comparator reads a distance of zero
  as 999, so for the results Providencia at 5 and Santiago at 0 the list has Providencia
  first, and 5 is not below 0.
\<close>

theorem C9_counterexample:
  "getNearbyMunicipalities example_radius_answer =
     Inr [\<lparr>city = ''Providencia'', state = Some ''RM'', postal_code = Some ''7500000'',
           distance = Some (Num 5)\<rparr>,
          \<lparr>city = ''Santiago'', state = Some ''RM'', postal_code = Some ''7500000'',
           distance = Some (Num 0)\<rparr>]
   \<and> \<not> lessEqual (Some (Num 5)) (Some (Num 0))"
  by (simp add: example_radius_answer_result lessEqual_def)

text \<open>
  Claim C9, amended. For every API response with a results array, the list returned by
  \<^verbatim>\<open>getNearbyMunicipalities\<close> has pairwise-distinct city names, its entry for a city
  is the first entry of that city in the input, and it is sorted in non-decreasing order
  of \<^verbatim>\<open>distance || 999\<close>: by distance, an entry whose distance is zero, missing or not
  a number being placed as if it were at 999. So the list is sorted by distance whenever
  every item has a distance that is a number other than zero.
\<close>

theorem C9_getNearbyMunicipalities_distinct_sorted:
  assumes "usable answer = Some data" and "radius_results data = Some results"
  shows "\<exists>out. getNearbyMunicipalities answer = Inr out
          \<and> distinct (map city out)
          \<and> (\<forall>c. find (\<lambda>m. city m = c) out
                   = find (\<lambda>m. city m = c) (map toMunicipality results))
          \<and> sorted (map distanceOr999 out)
          \<and> (list_all hasNonZeroDistance results \<longrightarrow>
                sorted_wrt (\<lambda>a b. lessEqual (distance a) (distance b)) out)"
proof -
  define ms where "ms = map toMunicipality results"
  define out where "out = sortBy compareDistance (uniqueMunicipalities ms)"
  have r: "getNearbyMunicipalities answer = Inr out"
    using getNearbyMunicipalities_results [OF assms] by (simp add: out_def ms_def)
  have d: "distinct (map city out)"
    unfolding out_def by (intro distinct_sortBy unique_distinct)
  have f: "find (\<lambda>m. city m = c) out = find (\<lambda>m. city m = c) ms" for c
  proof -
    have "find (\<lambda>m. city m = c) out = find (\<lambda>m. city m = c) (uniqueMunicipalities ms)"
      using d unique_distinct [of ms] by (intro find_same_set) (simp_all add: out_def set_sortBy)
    then show ?thesis by (simp add: unique_find)
  qed
  have s: "sorted (map distanceOr999 out)"
    unfolding out_def compareDistance_key by (rule sorted_sortBy)
  have l: "sorted_wrt (\<lambda>a b. lessEqual (distance a) (distance b)) out"
    if nz: "list_all hasNonZeroDistance results"
  proof -
    have sub: "set out \<subseteq> set ms"
      unfolding out_def set_sortBy by (rule unique_subset)
    have k: "distance m = Some (Num (distanceOr999 m))" if "m \<in> set out" for m
    proof -
      from that sub obtain item where "item \<in> set results" "m = toMunicipality item"
        by (auto simp: ms_def)
      with nz show ?thesis using nonzero_distance [of item] by (auto simp: list_all_iff)
    qed
    have "sorted_wrt (\<lambda>a b. distanceOr999 a \<le> distanceOr999 b) out"
      using s by (simp add: sorted_map)
    then show ?thesis
      by (rule sorted_wrt_mono_rel [rotated]) (simp add: k lessEqual_def)
  qed
  from r d f s l show ?thesis unfolding ms_def by blast
qed

theorem C9_getNearbyMunicipalities_witness:
  "usable example_radius_answer_plain \<noteq> None
   \<and> list_all hasNonZeroDistance
       [example_radius_item ''Providencia'' (DistanceNumber 5),
        example_radius_item ''Santiago'' (DistanceNumber 2),
        example_radius_item ''Providencia'' (DistanceNumber 1)]
   \<and> (\<exists>out. getNearbyMunicipalities example_radius_answer_plain = Inr out
          \<and> map city out = [''Santiago'', ''Providencia'']
          \<and> map distance out = [Some (Num 2), Some (Num 5)]
          \<and> distinct (map city out)
          \<and> sorted (map distanceOr999 out)
          \<and> sorted_wrt (\<lambda>a b. lessEqual (distance a) (distance b)) out)"
proof -
  have nz: "list_all hasNonZeroDistance
       [example_radius_item ''Providencia'' (DistanceNumber 5),
        example_radius_item ''Santiago'' (DistanceNumber 2),
        example_radius_item ''Providencia'' (DistanceNumber 1)]"
    using example_radius_items_plain by (simp add: plainItem_def)
  from C9_getNearbyMunicipalities_distinct_sorted
         [OF example_radius_answer_plain_usable, simplified, OF refl] nz
  obtain out where o: "getNearbyMunicipalities example_radius_answer_plain = Inr out"
    "distinct (map city out)" "sorted (map distanceOr999 out)"
    "sorted_wrt (\<lambda>a b. lessEqual (distance a) (distance b)) out"
    by blast
  from o(1) have "map city out = [''Santiago'', ''Providencia'']"
    "map distance out = [Some (Num 2), Some (Num 5)]"
    by (auto simp: example_radius_answer_plain_result)
  with o nz example_radius_answer_plain_usable show ?thesis by auto
qed

text \<open>
  Claim C5, as stated: the service and its copy (the second \<^verbatim>\<open>GeolocationService\<close>
  class, which follows the Municipios page in \<^verbatim>\<open>client/src/components/PageTitle.tsx\<close>)
  return the same list for every API response and behave the same when the fetch fails.
  It fails on both counts: when the fetch fails the service throws the error again and
  the copy returns the empty list; and for an item with distance zero the service
  records the distance 0 where the copy records none.
\<close>

theorem C5_counterexample:
  "getNearbyMunicipalities Rejects = Inl NetworkError
   \<and> getNearbyMunicipalities_copy example_localeCompare Rejects = Inr []
   \<and> getNearbyMunicipalities example_radius_answer
       \<noteq> getNearbyMunicipalities_copy example_localeCompare example_radius_answer"
  by (simp add: example_radius_answer_result example_radius_answer_result_copy)
     (simp add: getNearbyMunicipalities_def getNearbyMunicipalities_copy_def)

text \<open>
  Claim C5, amended. The two copies of \<^verbatim>\<open>getNearbyMunicipalities\<close> agree on these
  responses: an OK response whose body has no results array, for which both return the
  empty list, and an OK response in which every item has a non-empty city and state, no
  \<^verbatim>\<open>postal_code\<close> property and a distance that is a number other than zero, for which
  both return the same list in the same order. When the fetch fails, the response is not
  OK or the body cannot be read, the service throws and the copy returns the empty list.
\<close>

theorem C5_copies_agree_on_plain_results:
  "(usable answer = None \<longrightarrow>
      (\<exists>e. getNearbyMunicipalities answer = Inl e)
      \<and> getNearbyMunicipalities_copy localeCompare answer = Inr [])
   \<and> (\<forall>data. usable answer = Some data \<and> radius_results data = None \<longrightarrow>
        getNearbyMunicipalities answer = Inr []
        \<and> getNearbyMunicipalities_copy localeCompare answer = Inr [])
   \<and> (\<forall>data results. usable answer = Some data \<and> radius_results data = Some results
        \<and> list_all plainItem results \<longrightarrow>
        getNearbyMunicipalities_copy localeCompare answer = getNearbyMunicipalities answer)"
proof (intro conjI allI impI)
  assume "usable answer = None"
  then show "\<exists>e. getNearbyMunicipalities answer = Inl e"
    by (cases answer rule: usable_cases) (auto simp: getNearbyMunicipalities_def)
next
  assume "usable answer = None"
  then show "getNearbyMunicipalities_copy localeCompare answer = Inr []"
    by (cases answer rule: usable_cases) (auto simp: getNearbyMunicipalities_copy_def)
next
  fix data assume "usable answer = Some data \<and> radius_results data = None"
  then show "getNearbyMunicipalities answer = Inr []"
    by (simp add: usable_Some getNearbyMunicipalities_def)
next
  fix data assume "usable answer = Some data \<and> radius_results data = None"
  then show "getNearbyMunicipalities_copy localeCompare answer = Inr []"
    by (simp add: usable_Some getNearbyMunicipalities_copy_def)
next
  fix data results
  assume a: "usable answer = Some data \<and> radius_results data = Some results
        \<and> list_all plainItem results"
  have m: "map toMunicipality_copy results = map toMunicipality results"
  proof (rule map_cong [OF refl])
    fix item assume "item \<in> set results"
    with a have p: "plainItem item" by (simp add: list_all_iff)
    then obtain x where "distance (toMunicipality item) = Some (Num x)"
      "distance (toMunicipality_copy item) = Some (Num x)"
      using nonzero_distance [of item] by (auto simp: plainItem_def)
    with p show "toMunicipality_copy item = toMunicipality item"
      by (auto simp: plainItem_def toMunicipality_def toMunicipality_copy_def or_js_def truthy_def
            split: option.splits)
  qed
  define u where "u = uniqueMunicipalities (map toMunicipality results)"
  have c: "\<forall>a \<in> set u. \<forall>b \<in> set u. compareDistance_copy localeCompare a b = compareDistance a b"
  proof (intro ballI)
    fix a b assume "a \<in> set u" "b \<in> set u"
    then have "a \<in> toMunicipality ` set results" "b \<in> toMunicipality ` set results"
      using unique_subset [of "map toMunicipality results"] by (auto simp: u_def)
    then obtain ia ib where i: "ia \<in> set results" "a = toMunicipality ia"
      "ib \<in> set results" "b = toMunicipality ib"
      by blast
    with a have "hasNonZeroDistance ia" "hasNonZeroDistance ib"
      by (simp_all add: list_all_iff plainItem_def)
    then show "compareDistance_copy localeCompare a b = compareDistance a b"
      using nonzero_distance [of ia] nonzero_distance [of ib] i
      by (auto simp: compareDistance_copy_def compareDistance_def)
  qed
  from a show "getNearbyMunicipalities_copy localeCompare answer = getNearbyMunicipalities answer"
    using sortBy_cong [OF c]
    by (simp add: usable_Some getNearbyMunicipalities_def getNearbyMunicipalities_copy_def m u_def)
qed


theorem C5_copies_witness:
  "usable (Rejects :: radius_data json reply) = None
   \<and> (\<exists>e. getNearbyMunicipalities Rejects = Inl e)
   \<and> getNearbyMunicipalities_copy example_localeCompare Rejects = Inr []
   \<and> usable example_radius_answer_plain \<noteq> None
   \<and> getNearbyMunicipalities_copy example_localeCompare example_radius_answer_plain
       = getNearbyMunicipalities example_radius_answer_plain
   \<and> getNearbyMunicipalities example_radius_answer_plain
       = Inr [\<lparr>city = ''Santiago'', state = Some ''RM'', postal_code = Some ''7500000'',
               distance = Some (Num 2)\<rparr>,
              \<lparr>city = ''Providencia'', state = Some ''RM'', postal_code = Some ''7500000'',
               distance = Some (Num 5)\<rparr>]"
proof -
  have n: "usable (Rejects :: radius_data json reply) = None" by (simp add: usable_def)
  note c = C5_copies_agree_on_plain_results
  from c [of Rejects example_localeCompare] n
  have 1: "(\<exists>e. getNearbyMunicipalities Rejects = Inl e)
      \<and> getNearbyMunicipalities_copy example_localeCompare Rejects = Inr []"
    by blast
  from c [of example_radius_answer_plain example_localeCompare]
       example_radius_answer_plain_usable example_radius_items_plain
  have 2: "getNearbyMunicipalities_copy example_localeCompare example_radius_answer_plain
       = getNearbyMunicipalities example_radius_answer_plain"
    by simp
  from n 1 2 example_radius_answer_plain_usable example_radius_answer_plain_result
  show ?thesis by simp
qed

section \<open>Properties of getNextThreeDays\<close>

lemma daysInMonth_ge: "28 \<le> daysInMonth y m"
  by (simp add: daysInMonth_def)

lemma makeDay_in_month:
  "1 \<le> n \<Longrightarrow> n \<le> int (daysInMonth (getFullYear d) (getMonth d)) \<Longrightarrow> makeDay d n = d\<lparr>getDate := nat n\<rparr>"
  by (subst makeDay.simps) simp

lemma makeDay_past_month:
  "int (daysInMonth (getFullYear d) (getMonth d)) < n \<Longrightarrow>
   makeDay d n = makeDay (firstOfNextMonth d) (n - int (daysInMonth (getFullYear d) (getMonth d)))"
  by (subst makeDay.simps) simp

lemma daysInMonth_pos: "Suc 0 \<le> daysInMonth y m"
  by (simp add: daysInMonth_def)

lemma validDate_firstOfNextMonth: "getMonth d < 12 \<Longrightarrow> validDate (firstOfNextMonth d)"
  by (simp add: validDate_def firstOfNextMonth_def daysInMonth_pos)

lemma firstOfNextMonth_getDate: "firstOfNextMonth (d\<lparr>getDate := k\<rparr>) = firstOfNextMonth d"
  by (simp add: firstOfNextMonth_def)

text \<open>Making the day after day \<open>n\<close> gives the calendar day after the one for day \<open>n\<close>.\<close>

lemma makeDay_Suc:
  "1 \<le> n \<Longrightarrow> getMonth d < 12 \<Longrightarrow> makeDay d (n + 1) = nextDay (makeDay d n)"
proof (induction d n rule: makeDay.induct)
  case (1 d n)
  let ?dim = "int (daysInMonth (getFullYear d) (getMonth d))"
  show ?case
  proof (cases "?dim < n")
    case True
    then have a: "makeDay d n = makeDay (firstOfNextMonth d) (n - ?dim)"
      and b: "makeDay d (n + 1) = makeDay (firstOfNextMonth d) (n + 1 - ?dim)"
      by (simp_all add: makeDay_past_month)
    have m: "getMonth (firstOfNextMonth d) < 12" by (simp add: firstOfNextMonth_def)
    have "makeDay (firstOfNextMonth d) (n - ?dim + 1) = nextDay (makeDay (firstOfNextMonth d) (n - ?dim))"
      using True m by (intro "1.IH"(1)) simp_all
    with a b show ?thesis by (simp add: algebra_simps)
  next
    case False
    with "1.prems" have a: "makeDay d n = d\<lparr>getDate := nat n\<rparr>"
      by (simp add: makeDay_in_month)
    show ?thesis
    proof (cases "n = ?dim")
      case True
      then have "makeDay d (n + 1) = makeDay (firstOfNextMonth d) 1"
        by (simp add: makeDay_past_month)
      also have "\<dots> = firstOfNextMonth d"
        using validDate_firstOfNextMonth [OF "1.prems"(2)]
        by (subst makeDay_in_month) (simp_all add: validDate_def firstOfNextMonth_def)
      finally show ?thesis using a True by (simp add: nextDay_def firstOfNextMonth_getDate)
    next
      case ne: False
      with False "1.prems" have "makeDay d (n + 1) = d\<lparr>getDate := nat (n + 1)\<rparr>"
        by (intro makeDay_in_month) simp_all
      with a ne False "1.prems" show ?thesis
        by (simp add: nextDay_def nat_add_distrib)
    qed
  qed
qed

lemma makeDay_self: "validDate d \<Longrightarrow> makeDay d (int (getDate d)) = d"
  by (subst makeDay_in_month) (simp_all add: validDate_def)

lemma makeDay_next:
  assumes "validDate today"
  shows "makeDay today (int (getDate today) + 1) = nextDay today"
    and "makeDay today (int (getDate today) + 2) = nextDay (nextDay today)"
    and "makeDay today (int (getDate today) + 3) = nextDay (nextDay (nextDay today))"
proof -
  have m: "getMonth today < 12" and g: "1 \<le> int (getDate today)"
    using assms by (simp_all add: validDate_def)
  show 1: "makeDay today (int (getDate today) + 1) = nextDay today"
    using makeDay_Suc [OF g m] makeDay_self [OF assms] by simp
  have "makeDay today (int (getDate today) + 1 + 1) = nextDay (makeDay today (int (getDate today) + 1))"
    using g m by (intro makeDay_Suc) simp_all
  with 1 show 2: "makeDay today (int (getDate today) + 2) = nextDay (nextDay today)"
    by (simp add: add.assoc)
  have "makeDay today (int (getDate today) + 2 + 1) = nextDay (makeDay today (int (getDate today) + 2))"
    using g m by (intro makeDay_Suc) simp_all
  with 2 show "makeDay today (int (getDate today) + 3) = nextDay (nextDay (nextDay today))"
    by (simp add: add.assoc)
qed

text \<open>
  The day made depends on the year and the month of the object only; its time within the
  day is carried along.
\<close>

lemma makeDay_getDate: "makeDay (d\<lparr>getDate := k\<rparr>) n = makeDay d n"
proof (induction d n arbitrary: k rule: makeDay.induct)
  case (1 d n)
  let ?dim = "int (daysInMonth (getFullYear d) (getMonth d))"
  let ?e = "d\<lparr>getDate := k\<rparr>"
  show ?case
  proof (cases "?dim < n")
    case True
    then have "makeDay ?e n = makeDay (firstOfNextMonth ?e) (n - ?dim)"
      by (subst makeDay.simps) simp
    also have "\<dots> = makeDay (firstOfNextMonth d) (n - ?dim)"
      by (simp add: firstOfNextMonth_getDate)
    also have "\<dots> = makeDay d n" using True by (simp add: makeDay_past_month)
    finally show ?thesis .
  next
    case False
    show ?thesis
    proof (cases "n < 1")
      case True
      let ?p = "previousMonth d"
      let ?pd = "int (daysInMonth (getFullYear ?p) (getMonth ?p))"
      have p: "previousMonth ?e = ?p\<lparr>getDate := k\<rparr>" by (simp add: previousMonth_def)
      have "makeDay ?e n = makeDay (previousMonth ?e) (n + ?pd)"
        using False True by (subst makeDay.simps) (simp add: p)
      also have "\<dots> = makeDay ?p (n + ?pd)"
        unfolding p using False True by (intro "1.IH"(2)) simp_all
      also have "\<dots> = makeDay d n"
        using False True by (subst (2) makeDay.simps) simp
      finally show ?thesis .
    next
      case ge: False
      with False show ?thesis by (simp add: makeDay_in_month)
    qed
  qed
qed

lemma makeDay_timeWithinDay:
  "makeDay (d\<lparr>timeWithinDay := t\<rparr>) n = (makeDay d n)\<lparr>timeWithinDay := t\<rparr>"
proof (induction d n rule: makeDay.induct)
  case (1 d n)
  let ?dim = "int (daysInMonth (getFullYear d) (getMonth d))"
  let ?e = "d\<lparr>timeWithinDay := t\<rparr>"
  show ?case
  proof (cases "?dim < n")
    case True
    have f: "firstOfNextMonth ?e = (firstOfNextMonth d)\<lparr>timeWithinDay := t\<rparr>"
      by (simp add: firstOfNextMonth_def)
    have "makeDay ?e n = makeDay (firstOfNextMonth ?e) (n - ?dim)"
      using True by (subst makeDay.simps) simp
    also have "\<dots> = (makeDay (firstOfNextMonth d) (n - ?dim))\<lparr>timeWithinDay := t\<rparr>"
      unfolding f using True by (intro "1.IH"(1)) simp_all
    also have "\<dots> = (makeDay d n)\<lparr>timeWithinDay := t\<rparr>"
      using True by (simp add: makeDay_past_month)
    finally show ?thesis .
  next
    case False
    show ?thesis
    proof (cases "n < 1")
      case True
      let ?p = "previousMonth d"
      let ?pd = "int (daysInMonth (getFullYear ?p) (getMonth ?p))"
      have p: "previousMonth ?e = ?p\<lparr>timeWithinDay := t\<rparr>" by (simp add: previousMonth_def)
      have "makeDay ?e n = makeDay (previousMonth ?e) (n + ?pd)"
        using False True by (subst makeDay.simps) (simp add: p)
      also have "\<dots> = (makeDay ?p (n + ?pd))\<lparr>timeWithinDay := t\<rparr>"
        unfolding p using False True by (intro "1.IH"(2)) simp_all
      also have "\<dots> = (makeDay d n)\<lparr>timeWithinDay := t\<rparr>"
        using False True by (subst (2) makeDay.simps) simp
      finally show ?thesis .
    next
      case ge: False
      with False show ?thesis by (simp add: makeDay_in_month)
    qed
  qed
qed

lemma makeDay_sameMonth:
  assumes "sameMonth d e"
  shows "makeDay d n = (makeDay e n)\<lparr>timeWithinDay := timeWithinDay d\<rparr>"
proof -
  have "d = e\<lparr>getDate := getDate d, timeWithinDay := timeWithinDay d\<rparr>"
    using assms by (simp add: sameMonth_def)
  then have "makeDay d n = makeDay (e\<lparr>getDate := getDate d, timeWithinDay := timeWithinDay d\<rparr>) n"
    by simp
  also have "\<dots> = (makeDay e n)\<lparr>timeWithinDay := timeWithinDay d\<rparr>"
    by (simp add: makeDay_timeWithinDay makeDay_getDate)
  finally show ?thesis .
qed

lemma startDateOf_timeWithinDay: "startDateOf (d\<lparr>timeWithinDay := t\<rparr>) = startDateOf d"
  by (simp add: startDateOf_def getDay_def)

lemma localTimeOfUTC_exists: "\<not> isSkipped zone t \<Longrightarrow> localTimeOfUTC zone t = t"
proof -
  assume "\<not> isSkipped zone t"
  then have "find (\<lambda>g. skipped g t) zone = None"
    by (simp add: isSkipped_def find_None_iff list_ex_iff)
  then show ?thesis by (simp add: localTimeOfUTC_def)
qed

lemma nextThreeDaysLoop_step:
  "i \<le> 3 \<Longrightarrow> nextThreeDaysLoop zone clock today i dates
     = nextThreeDaysLoop zone clock today (i + 1)
         (dates @ [startDateOf (setDate zone (clock i) (int (getDate today) + int i))])"
  by (subst nextThreeDaysLoop.simps) simp

lemma nextThreeDaysLoop_end: "3 < i \<Longrightarrow> nextThreeDaysLoop zone clock today i dates = dates"
  by (subst nextThreeDaysLoop.simps) simp

lemma getNextThreeDays_unfold:
  "getNextThreeDays zone clock =
     [startDateOf (localTimeOfUTC zone (madeTime clock 1)),
      startDateOf (localTimeOfUTC zone (madeTime clock 2)),
      startDateOf (localTimeOfUTC zone (madeTime clock 3))]"
proof -
  let ?e = "\<lambda>i. startDateOf (setDate zone (clock i) (int (getDate (clock 0)) + int i))"
  have "getNextThreeDays zone clock = nextThreeDaysLoop zone clock (clock 0) 1 []"
    by (simp add: getNextThreeDays_def)
  also have "\<dots> = nextThreeDaysLoop zone clock (clock 0) (1 + 1) [?e 1]"
    by (subst nextThreeDaysLoop_step) simp_all
  also have "\<dots> = nextThreeDaysLoop zone clock (clock 0) (1 + 1 + 1) [?e 1, ?e 2]"
    by (subst nextThreeDaysLoop_step) (simp_all add: numeral_2_eq_2)
  also have "\<dots> = nextThreeDaysLoop zone clock (clock 0) (1 + 1 + 1 + 1) [?e 1, ?e 2, ?e 3]"
    by (subst nextThreeDaysLoop_step) (simp_all add: numeral_2_eq_2 numeral_3_eq_3)
  also have "\<dots> = [?e 1, ?e 2, ?e 3]"
    by (rule nextThreeDaysLoop_end) simp
  finally show ?thesis by (simp add: setDate_def madeTime_def)
qed

lemma value_text_suffix: "suffix ''/2025'' (value_text (startDateOf d))"
  unfolding startDateOf_def Let_def suffix_def by simp

text \<open>
  When the clock read in round \<open>i\<close> shows the month of \<open>today\<close> and the local time made
  exists, the entry of round \<open>i\<close> is the one of the \<open>i\<close>-th day after \<open>today\<close>.
\<close>

lemma startDateOf_round:
  assumes "sameMonth (clock i) (clock 0)" and "\<not> isSkipped zone (madeTime clock i)"
  shows "startDateOf (localTimeOfUTC zone (madeTime clock i))
           = startDateOf (makeDay (clock 0) (int (getDate (clock 0)) + int i))"
proof -
  have "localTimeOfUTC zone (madeTime clock i) = madeTime clock i"
    using assms(2) by (rule localTimeOfUTC_exists)
  also have "\<dots> = (makeDay (clock 0) (int (getDate (clock 0)) + int i))
                     \<lparr>timeWithinDay := timeWithinDay (clock i)\<rparr>"
    unfolding madeTime_def using assms(1) by (rule makeDay_sameMonth)
  finally show ?thesis by (simp add: startDateOf_timeWithinDay)
qed

text \<open>The example clocks, evaluated.\<close>

lemma value_text_examples:
  "value_text (startDateOf \<lparr>getFullYear = y, getMonth = 11, getDate = 29, timeWithinDay = t\<rparr>)
     = ''29/12/2025''"
  "value_text (startDateOf \<lparr>getFullYear = y, getMonth = 11, getDate = 30, timeWithinDay = t\<rparr>)
     = ''30/12/2025''"
  "value_text (startDateOf \<lparr>getFullYear = y, getMonth = 11, getDate = 31, timeWithinDay = t\<rparr>)
     = ''31/12/2025''"
  "value_text (startDateOf \<lparr>getFullYear = y, getMonth = 0, getDate = 1, timeWithinDay = t\<rparr>)
     = ''1/01/2025''"
  "value_text (startDateOf \<lparr>getFullYear = y, getMonth = 0, getDate = 2, timeWithinDay = t\<rparr>)
     = ''2/01/2025''"
  "value_text (startDateOf \<lparr>getFullYear = y, getMonth = 1, getDate = 1, timeWithinDay = t\<rparr>)
     = ''1/02/2025''"
  "value_text (startDateOf \<lparr>getFullYear = y, getMonth = 1, getDate = 2, timeWithinDay = t\<rparr>)
     = ''2/02/2025''"
  "value_text (startDateOf \<lparr>getFullYear = y, getMonth = 1, getDate = 3, timeWithinDay = t\<rparr>)
     = ''3/02/2025''"
  "value_text (startDateOf \<lparr>getFullYear = y, getMonth = 2, getDate = 4, timeWithinDay = t\<rparr>)
     = ''4/03/2025''"
  "value_text (startDateOf \<lparr>getFullYear = y, getMonth = 2, getDate = 5, timeWithinDay = t\<rparr>)
     = ''5/03/2025''"
  "value_text (startDateOf \<lparr>getFullYear = y, getMonth = 2, getDate = 6, timeWithinDay = t\<rparr>)
     = ''6/03/2025''"
  by (simp_all add: startDateOf_def months_def toStringRadix_def toDigits.simps digitChar_def
        Let_def)

lemma madeTime_Apia:
  "madeTime example_clock_Apia 1
     = \<lparr>getFullYear = 2011, getMonth = 11, getDate = 29, timeWithinDay = 43200000\<rparr>"
  "madeTime example_clock_Apia 2
     = \<lparr>getFullYear = 2011, getMonth = 11, getDate = 30, timeWithinDay = 43200000\<rparr>"
  "madeTime example_clock_Apia 3
     = \<lparr>getFullYear = 2011, getMonth = 11, getDate = 31, timeWithinDay = 43200000\<rparr>"
  by (simp_all add: madeTime_def example_clock_Apia_def makeDay_in_month daysInMonth_def)

lemma localMs_Apia:
  "localMs \<lparr>getFullYear = 2011, getMonth = 11, getDate = 29, timeWithinDay = 43200000\<rparr>
     = 1325160000000"
  "localMs \<lparr>getFullYear = 2011, getMonth = 11, getDate = 30, timeWithinDay = 0\<rparr>
     = 1325203200000"
  "localMs \<lparr>getFullYear = 2011, getMonth = 11, getDate = 30, timeWithinDay = 43200000\<rparr>
     = 1325246400000"
  "localMs \<lparr>getFullYear = 2011, getMonth = 11, getDate = 31, timeWithinDay = 43200000\<rparr>
     = 1325332800000"
  by (simp_all add: localMs_def daysFromCivil_def msPerDay_def Let_def)

lemma localTimeOfUTC_Apia:
  "localTimeOfUTC zone_Apia
     \<lparr>getFullYear = 2011, getMonth = 11, getDate = 29, timeWithinDay = 43200000\<rparr>
     = \<lparr>getFullYear = 2011, getMonth = 11, getDate = 29, timeWithinDay = 43200000\<rparr>"
  "localTimeOfUTC zone_Apia
     \<lparr>getFullYear = 2011, getMonth = 11, getDate = 30, timeWithinDay = 43200000\<rparr>
     = \<lparr>getFullYear = 2011, getMonth = 11, getDate = 31, timeWithinDay = 43200000\<rparr>"
  "localTimeOfUTC zone_Apia
     \<lparr>getFullYear = 2011, getMonth = 11, getDate = 31, timeWithinDay = 43200000\<rparr>
     = \<lparr>getFullYear = 2011, getMonth = 11, getDate = 31, timeWithinDay = 43200000\<rparr>"
  by (simp_all add: localTimeOfUTC_def zone_Apia_def skipped_def localMs_Apia
        addMilliseconds_def msPerDay_def nextDay_def daysInMonth_def Let_def)

lemma getNextThreeDays_Apia:
  "map value_text (getNextThreeDays zone_Apia example_clock_Apia)
     = [''29/12/2025'', ''31/12/2025'', ''31/12/2025'']"
  unfolding getNextThreeDays_unfold madeTime_Apia localTimeOfUTC_Apia
  by (simp only: list.map value_text_examples)

lemma nextDay_Apia:
  "nextDay (example_clock_Apia 0)
     = \<lparr>getFullYear = 2011, getMonth = 11, getDate = 29, timeWithinDay = 43200000\<rparr>"
  "nextDay \<lparr>getFullYear = 2011, getMonth = 11, getDate = 29, timeWithinDay = 43200000\<rparr>
     = \<lparr>getFullYear = 2011, getMonth = 11, getDate = 30, timeWithinDay = 43200000\<rparr>"
  "nextDay \<lparr>getFullYear = 2011, getMonth = 11, getDate = 30, timeWithinDay = 43200000\<rparr>
     = \<lparr>getFullYear = 2011, getMonth = 11, getDate = 31, timeWithinDay = 43200000\<rparr>"
  by (simp_all add: nextDay_def example_clock_Apia_def daysInMonth_def)

lemma madeTime_midnight:
  "madeTime example_clock_midnight 1
     = \<lparr>getFullYear = 2025, getMonth = 2, getDate = 4, timeWithinDay = 0\<rparr>"
  "madeTime example_clock_midnight 2
     = \<lparr>getFullYear = 2025, getMonth = 2, getDate = 5, timeWithinDay = 1\<rparr>"
  "madeTime example_clock_midnight 3
     = \<lparr>getFullYear = 2025, getMonth = 2, getDate = 6, timeWithinDay = 2\<rparr>"
  by (simp_all add: madeTime_def example_clock_midnight_def makeDay_past_month makeDay_in_month
        daysInMonth_def isLeapYear_def firstOfNextMonth_def)

lemma getNextThreeDays_midnight:
  "map value_text (getNextThreeDays [] example_clock_midnight)
     = [''4/03/2025'', ''5/03/2025'', ''6/03/2025'']"
  unfolding getNextThreeDays_unfold madeTime_midnight
  by (simp add: localTimeOfUTC_def value_text_examples)

lemma nextDay_midnight:
  "nextDay (example_clock_midnight 0)
     = \<lparr>getFullYear = 2025, getMonth = 1, getDate = 1, timeWithinDay = 86399999\<rparr>"
  "nextDay \<lparr>getFullYear = 2025, getMonth = 1, getDate = 1, timeWithinDay = 86399999\<rparr>
     = \<lparr>getFullYear = 2025, getMonth = 1, getDate = 2, timeWithinDay = 86399999\<rparr>"
  "nextDay \<lparr>getFullYear = 2025, getMonth = 1, getDate = 2, timeWithinDay = 86399999\<rparr>
     = \<lparr>getFullYear = 2025, getMonth = 1, getDate = 3, timeWithinDay = 86399999\<rparr>"
  by (simp_all add: nextDay_def example_clock_midnight_def daysInMonth_def isLeapYear_def
        firstOfNextMonth_def)

text \<open>
  Claim C10 as stated (three entries, one for each of the next three calendar days after
  the current date) fails in two ways. In the zone Pacific/Apia on 28 December 2011 the
  second entry is the one of 31 December, like the third: 30 December was skipped there.
  And when midnight of the last day of January passes between the clock read for \<open>today\<close>
  and the ones of the loop, day 32, 33 and 34 are counted from the start of February and
  the entries are those of 4, 5 and 6 March instead of 1, 2 and 3 February.
\<close>

theorem C10_counterexample:
  "map value_text (getNextThreeDays zone_Apia example_clock_Apia)
     = [''29/12/2025'', ''31/12/2025'', ''31/12/2025'']
   \<and> map value_text
       [startDateOf (nextDay (example_clock_Apia 0)),
        startDateOf (nextDay (nextDay (example_clock_Apia 0))),
        startDateOf (nextDay (nextDay (nextDay (example_clock_Apia 0))))]
     = [''29/12/2025'', ''30/12/2025'', ''31/12/2025'']
   \<and> map value_text (getNextThreeDays [] example_clock_midnight)
     = [''4/03/2025'', ''5/03/2025'', ''6/03/2025'']
   \<and> map value_text
       [startDateOf (nextDay (example_clock_midnight 0)),
        startDateOf (nextDay (nextDay (example_clock_midnight 0))),
        startDateOf (nextDay (nextDay (nextDay (example_clock_midnight 0))))]
     = [''1/02/2025'', ''2/02/2025'', ''3/02/2025'']"
  unfolding nextDay_Apia nextDay_midnight getNextThreeDays_Apia getNextThreeDays_midnight
  by (simp only: list.map value_text_examples simp_thms)

text \<open>
  Claim C10, amended. \<^verbatim>\<open>getNextThreeDays()\<close> always returns exactly three entries, and the
  \<^verbatim>\<open>value\<close> of every entry ends in the literal \<^verbatim>\<open>/2025\<close>, whatever the current year, the
  clock and the time zone are. The entries are those of the three calendar days after
  the current date, in order (across the end of a month and of a year too), when every
  clock read of the loop shows the month of the first clock read and none of the three
  local times made (the day at the time of day of the clock read) is skipped in the time
  zone.
\<close>

theorem C10_getNextThreeDays:
  "length (getNextThreeDays zone clock) = 3
   \<and> list_all (\<lambda>e. suffix ''/2025'' (value_text e)) (getNextThreeDays zone clock)
   \<and> (validDate (clock 0)
        \<and> sameMonth (clock 1) (clock 0) \<and> \<not> isSkipped zone (madeTime clock 1)
        \<and> sameMonth (clock 2) (clock 0) \<and> \<not> isSkipped zone (madeTime clock 2)
        \<and> sameMonth (clock 3) (clock 0) \<and> \<not> isSkipped zone (madeTime clock 3)
      \<longrightarrow> getNextThreeDays zone clock
            = [startDateOf (nextDay (clock 0)), startDateOf (nextDay (nextDay (clock 0))),
               startDateOf (nextDay (nextDay (nextDay (clock 0))))])"
proof (intro conjI impI)
  show "length (getNextThreeDays zone clock) = 3"
    unfolding getNextThreeDays_unfold by simp
  show "list_all (\<lambda>e. suffix ''/2025'' (value_text e)) (getNextThreeDays zone clock)"
    unfolding getNextThreeDays_unfold by (simp add: value_text_suffix)
next
  assume h: "validDate (clock 0)
        \<and> sameMonth (clock 1) (clock 0) \<and> \<not> isSkipped zone (madeTime clock 1)
        \<and> sameMonth (clock 2) (clock 0) \<and> \<not> isSkipped zone (madeTime clock 2)
        \<and> sameMonth (clock 3) (clock 0) \<and> \<not> isSkipped zone (madeTime clock 3)"
  then have v: "validDate (clock 0)" by simp
  have 1: "startDateOf (localTimeOfUTC zone (madeTime clock 1)) = startDateOf (nextDay (clock 0))"
    using startDateOf_round [of clock 1 zone] h makeDay_next(1) [OF v] by simp
  have 2: "startDateOf (localTimeOfUTC zone (madeTime clock 2))
             = startDateOf (nextDay (nextDay (clock 0)))"
    using startDateOf_round [of clock 2 zone] h makeDay_next(2) [OF v] by simp
  have 3: "startDateOf (localTimeOfUTC zone (madeTime clock 3))
             = startDateOf (nextDay (nextDay (nextDay (clock 0))))"
    using startDateOf_round [of clock 3 zone] h makeDay_next(3) [OF v] by simp
  show "getNextThreeDays zone clock
            = [startDateOf (nextDay (clock 0)), startDateOf (nextDay (nextDay (clock 0))),
               startDateOf (nextDay (nextDay (nextDay (clock 0))))]"
    unfolding getNextThreeDays_unfold 1 2 3 ..
qed

lemma example_clock_madeTime:
  "madeTime example_clock 1
     = \<lparr>getFullYear = 2024, getMonth = 11, getDate = 31, timeWithinDay = 43200001\<rparr>"
  "madeTime example_clock 2
     = \<lparr>getFullYear = 2025, getMonth = 0, getDate = 1, timeWithinDay = 43200002\<rparr>"
  "madeTime example_clock 3
     = \<lparr>getFullYear = 2025, getMonth = 0, getDate = 2, timeWithinDay = 43200003\<rparr>"
  by (simp_all add: madeTime_def example_clock_def example_today_def makeDay_past_month
        makeDay_in_month daysInMonth_def isLeapYear_def firstOfNextMonth_def)

lemma example_clock_not_skipped:
  "\<not> isSkipped example_zone (madeTime example_clock 1)"
  "\<not> isSkipped example_zone (madeTime example_clock 2)"
  "\<not> isSkipped example_zone (madeTime example_clock 3)"
  unfolding example_clock_madeTime
  by (simp_all add: isSkipped_def example_zone_def skipped_def localMs_def daysFromCivil_def
        msPerDay_def Let_def)

lemma example_clock_nextDay:
  "nextDay (example_clock 0)
     = \<lparr>getFullYear = 2024, getMonth = 11, getDate = 31, timeWithinDay = 43200000\<rparr>"
  "nextDay \<lparr>getFullYear = 2024, getMonth = 11, getDate = 31, timeWithinDay = 43200000\<rparr>
     = \<lparr>getFullYear = 2025, getMonth = 0, getDate = 1, timeWithinDay = 43200000\<rparr>"
  "nextDay \<lparr>getFullYear = 2025, getMonth = 0, getDate = 1, timeWithinDay = 43200000\<rparr>
     = \<lparr>getFullYear = 2025, getMonth = 0, getDate = 2, timeWithinDay = 43200000\<rparr>"
  by (simp_all add: nextDay_def example_clock_def example_today_def daysInMonth_def
        firstOfNextMonth_def)

theorem C10_getNextThreeDays_witness:
  "validDate (example_clock 0)
   \<and> sameMonth (example_clock 1) (example_clock 0)
   \<and> sameMonth (example_clock 2) (example_clock 0)
   \<and> sameMonth (example_clock 3) (example_clock 0)
   \<and> length (getNextThreeDays example_zone example_clock) = 3
   \<and> map value_text (getNextThreeDays example_zone example_clock)
       = [''31/12/2025'', ''1/01/2025'', ''2/01/2025'']
   \<and> list_all (\<lambda>e. suffix ''/2025'' (value_text e)) (getNextThreeDays example_zone example_clock)"
proof -
  have v: "validDate (example_clock 0)"
    by (simp add: validDate_def example_clock_def example_today_def daysInMonth_def)
  have s: "sameMonth (example_clock 1) (example_clock 0)"
    "sameMonth (example_clock 2) (example_clock 0)"
    "sameMonth (example_clock 3) (example_clock 0)"
    by (simp_all add: sameMonth_def example_clock_def)
  from C10_getNextThreeDays [of example_zone example_clock] v s example_clock_not_skipped
  have l: "length (getNextThreeDays example_zone example_clock) = 3"
    and a: "list_all (\<lambda>e. suffix ''/2025'' (value_text e))
              (getNextThreeDays example_zone example_clock)"
    and e: "getNextThreeDays example_zone example_clock
         = [startDateOf (nextDay (example_clock 0)),
            startDateOf (nextDay (nextDay (example_clock 0))),
            startDateOf (nextDay (nextDay (nextDay (example_clock 0))))]"
    by blast+
  from e have m: "map value_text (getNextThreeDays example_zone example_clock)
       = [''31/12/2025'', ''1/01/2025'', ''2/01/2025'']"
    unfolding example_clock_nextDay by (simp only: list.map value_text_examples)
  from v s l m a show ?thesis by blast
qed

section \<open>Properties of the delivery estimates\<close>

lemma bitLength_le: "n < 2 ^ k \<Longrightarrow> bitLength n \<le> k"
proof (induction n arbitrary: k rule: bitLength.induct)
  case (1 n)
  show ?case
  proof (cases "n = 0")
    case True
    then show ?thesis by (simp add: bitLength.simps)
  next
    case False
    with "1.prems" obtain j where k: "k = Suc j" by (cases k) auto
    with "1.prems" have "n div 2 < 2 ^ j" by simp
    then have "bitLength (n div 2) \<le> j" using False by (intro "1.IH") simp_all
    with False k show ?thesis by (subst bitLength.simps) simp
  qed
qed

lemma bitLength_eq: "2 ^ l \<le> n \<Longrightarrow> n < 2 ^ Suc l \<Longrightarrow> bitLength n = Suc l"
proof (induction l arbitrary: n)
  case 0
  then have "n = 1" by simp
  then show ?case by (simp add: bitLength.simps [of "Suc 0"] bitLength.simps [of 0])
next
  case (Suc l)
  then have "2 ^ l \<le> n div 2" "n div 2 < 2 ^ Suc l" by simp_all
  then have "bitLength (n div 2) = Suc l" by (rule Suc.IH)
  moreover have "n \<noteq> 0" using Suc.prems by auto
  ultimately show ?case by (subst bitLength.simps) simp
qed

text \<open>Rounding moves a numerator by at most half a unit of the last digit kept.\<close>

lemma roundHalfEven_bound: "2 * (roundHalfEven n s * 2 ^ s) \<le> 2 * n + 2 ^ s"
proof -
  define q where "q = n div 2 ^ s"
  define r where "r = n mod 2 ^ s"
  define p :: nat where "p = 2 ^ s"
  have n: "n = q * p + r" unfolding q_def r_def p_def by (rule div_mult_mod_eq [symmetric])
  show ?thesis
  proof (cases "2 * r < p")
    case True
    then have "roundHalfEven n s = q"
      by (simp add: roundHalfEven_def Let_def q_def r_def p_def)
    then show ?thesis unfolding n p_def [symmetric] by simp
  next
    case False
    have "roundHalfEven n s \<le> q + 1"
      by (simp add: roundHalfEven_def Let_def q_def r_def p_def)
    then have "roundHalfEven n s * p \<le> (q + 1) * p" by (rule mult_le_mono1)
    then have "2 * (roundHalfEven n s * p) \<le> 2 * (q * p) + 2 * p" by (simp add: algebra_simps)
    also have "\<dots> \<le> 2 * (q * p) + (2 * r + p)" using False by simp
    finally show ?thesis unfolding n p_def [symmetric] by (simp add: algebra_simps)
  qed
qed

text \<open>
  The double product of 17 and a double below 1 is below 17: the exact numerator is at
  most \<open>17 * (2 ^ 53 - 1)\<close>, has at most 58 digits, and rounding away at most 5 of them adds
  at most 16.
\<close>

lemma timesDouble_17_bound:
  assumes "isUnitDouble u"
  shows "timesDouble 17 u < 17 * 2 ^ scale u"
proof -
  define n where "n = 17 * significand u"
  define s where "s = bitLength n - 53"
  have m: "significand u + 1 \<le> 2 ^ 53" and k: "53 \<le> scale u"
    using assms by (simp_all add: isUnitDouble_def)
  have n17: "n + 17 \<le> 17 * 2 ^ 53" using m by (simp add: n_def)
  have "n < 2 ^ 58" using n17 by simp
  then have "bitLength n \<le> 58" by (rule bitLength_le)
  then have "s \<le> 5" by (simp add: s_def)
  then have "(2::nat) ^ s \<le> 2 ^ 5" by (intro power_increasing) simp_all
  then have p: "(2::nat) ^ s \<le> 32" by simp
  have "2 * timesDouble 17 u \<le> 2 * n + 2 ^ s"
    using roundHalfEven_bound [of n s] by (simp add: timesDouble_def Let_def n_def s_def)
  with p n17 have "timesDouble 17 u < 17 * 2 ^ 53" by simp
  also have "\<dots> \<le> 17 * 2 ^ scale u"
  proof -
    have "(2::nat) ^ 53 \<le> 2 ^ scale u" using k by (intro power_increasing) simp_all
    then show ?thesis by (rule mult_le_mono2)
  qed
  finally show ?thesis .
qed

lemma getRandomEntregas_range:
  assumes "isUnitDouble u"
  shows "32 \<le> getRandomEntregas u \<and> getRandomEntregas u \<le> 48"
proof -
  have "timesDouble 17 u div 2 ^ scale u < 17"
    using timesDouble_17_bound [OF assms] by (simp add: less_mult_imp_div_less mult.commute)
  then show ?thesis by (simp add: getRandomEntregas_def)
qed

lemma municipiosFormatados_range:
  assumes "\<forall>i. isUnitDouble (rand i)"
  shows "\<forall>m \<in> set (municipiosFormatados rand n ms). 32 \<le> entregas m \<and> entregas m \<le> 48"
  using assms
  by (induction ms arbitrary: n) (simp_all add: getRandomEntregas_range)

lemma municipiosDoEstado_range:
  assumes "\<forall>i. isUnitDouble (rand i)"
  shows "\<forall>m \<in> set (municipiosDoEstado rand n ns). 32 \<le> entregas m \<and> entregas m \<le> 48"
  using assms
  by (induction ns arbitrary: n) (simp_all add: getRandomEntregas_range)

text \<open>
  The two example draws: the double product of 17 and 0.9411764705882353 is rounded up
  to 16, which gives 48 (the exact product has the floor 15); one half gives 40.
\<close>

lemma example_random_entregas: "getRandomEntregas example_random = 48"
proof -
  have "bitLength 144115188075855870 = 57"
    using bitLength_eq [of 56 144115188075855870] by simp
  then show ?thesis
    by (simp add: getRandomEntregas_def timesDouble_def example_random_def roundHalfEven_def
          Let_def)
qed

lemma example_random_exact_product:
  "(48 - 32 + 1) * significand example_random div 2 ^ scale example_random = 15"
  by (simp add: example_random_def)

lemma example_random_half_entregas: "getRandomEntregas example_random_half = 40"
proof -
  have "bitLength 76561193665298432 = 57"
    using bitLength_eq [of 56 76561193665298432] by simp
  then show ?thesis
    by (simp add: getRandomEntregas_def timesDouble_def example_random_half_def
          roundHalfEven_def Let_def)
qed

text \<open>
  Claim C6. Every randomly generated delivery estimate attached to a municipality is an
  integer between 32 and 48 inclusive, whatever doubles of \<open>[0, 1)\<close> the random source
  yields, the product being the rounded product of double arithmetic: every value of
  \<^verbatim>\<open>getRandomEntregas()\<close> is, and so is the \<^verbatim>\<open>entregas\<close> of every municipality both on
  the API-backed path and on the Brazilian static path.
\<close>

theorem C6_entregas_between_32_and_48:
  assumes "\<forall>i. isUnitDouble (rand i)"
  shows "(\<forall>i. 32 \<le> getRandomEntregas (rand i) \<and> getRandomEntregas (rand i) \<le> 48)
       \<and> (\<forall>m \<in> set (municipiosFormatados rand n municipalities).
            32 \<le> entregas m \<and> entregas m \<le> 48)
       \<and> (\<forall>m \<in> set (municipiosDoEstado rand k nomes).
            32 \<le> entregas m \<and> entregas m \<le> 48)"
  using assms municipiosFormatados_range municipiosDoEstado_range getRandomEntregas_range
  by blast

theorem C6_entregas_witness:
  "(\<forall>i. isUnitDouble (example_draws i))
   \<and> map entregas (municipiosFormatados example_draws 0
        [\<lparr>city = ''Santiago'', state = Some ''RM'', postal_code = Some ''7500000'',
          distance = Some (Num 2)\<rparr>,
         \<lparr>city = ''Providencia'', state = Some ''RM'', postal_code = Some ''7500000'',
          distance = Some (Num 3)\<rparr>]) = [48, 40]
   \<and> map entregas (municipiosDoEstado example_draws 0 [''Campinas'', ''Santos'']) = [48, 40]
   \<and> list_all (\<lambda>m. 32 \<le> entregas m \<and> entregas m \<le> 48)
        (municipiosFormatados example_draws 0
          [\<lparr>city = ''Santiago'', state = Some ''RM'', postal_code = Some ''7500000'',
            distance = Some (Num 2)\<rparr>,
           \<lparr>city = ''Providencia'', state = Some ''RM'', postal_code = Some ''7500000'',
            distance = Some (Num 3)\<rparr>])
   \<and> list_all (\<lambda>m. 32 \<le> entregas m \<and> entregas m \<le> 48)
        (municipiosDoEstado example_draws 0 [''Campinas'', ''Santos''])"
proof -
  have h: "\<forall>i. isUnitDouble (example_draws i)"
    by (simp add: isUnitDouble_def example_draws_def example_random_def example_random_half_def)
  show ?thesis
    using h C6_entregas_between_32_and_48 [OF h, of 0 _ 0 "[''Campinas'', ''Santos'']"]
    by (simp add: example_draws_def example_random_entregas example_random_half_entregas)
qed

end
